theory Spec2Isabelle
  imports Complex_Main "HOL-Library.Sublist"
begin

section \<open>JavaScript values\<close>

text \<open>
  The buyer map screen (\<^verbatim>\<open>src/pages/Home.tsx\<close>) and the detail screen
  (\<^verbatim>\<open>ParkingDetails\<close>) work on values typed \<^verbatim>\<open>any\<close>: records fetched from the REST
  service and payloads pushed over the socket. They are modelled as JSON-shaped values plus
  \<^verbatim>\<open>undefined\<close>.

  A number is an IEEE double: NaN, the two infinities, or a finite value, kept as the real
  number it denotes (the two zeros are identified; nothing in the modelled code tells them
  apart). An object is the map of its own properties; reading an absent property gives
  \<^verbatim>\<open>undefined\<close>.
\<close>

datatype jsnum = NaN | PosInf | NegInf | Fin real

datatype jsval =
    JUndefined
  | JNull
  | JBool bool
  | JNum jsnum
  | JStr string
  | JArr "jsval list"
  | JObj "string \<Rightarrow> jsval option"

type_synonym jsobj = "string \<Rightarrow> jsval option"

text \<open>
  What the language itself supplies and the repository does not define: the conversion of a
  number to its string form, the parsing of a string as a number, the rounding of an exact
  real result to the nearest double, and the parsing of a date string by \<^verbatim>\<open>new Date(s)\<close>
  (milliseconds since the epoch, or nothing for an invalid date). They are parameters of the
  model; every theorem below holds for all of them unless it states an assumption.
\<close>

record host =
  NumberToString :: "jsnum \<Rightarrow> string"
  StringToNumber :: "string \<Rightarrow> jsnum"
  fl :: "real \<Rightarrow> real"
  DateParse :: "string \<Rightarrow> int option"

subsection \<open>Coercions and operators\<close>

fun truthyNum :: "jsnum \<Rightarrow> bool" where
  "truthyNum NaN = False"
| "truthyNum (Fin x) = (x \<noteq> 0)"
| "truthyNum PosInf = True"
| "truthyNum NegInf = True"

text \<open>\<^verbatim>\<open>Boolean(v)\<close>, also the test of \<^verbatim>\<open>if (v)\<close>, \<^verbatim>\<open>!v\<close>, \<^verbatim>\<open>a || b\<close> and \<^verbatim>\<open>a && b\<close>.\<close>

fun truthy :: "jsval \<Rightarrow> bool" where
  "truthy JUndefined = False"
| "truthy JNull = False"
| "truthy (JBool b) = b"
| "truthy (JNum n) = truthyNum n"
| "truthy (JStr s) = (s \<noteq> [])"
| "truthy (JArr xs) = True"
| "truthy (JObj m) = True"

text \<open>\<^verbatim>\<open>a || b\<close> and \<^verbatim>\<open>a ?? b\<close>.\<close>

definition js_or :: "jsval \<Rightarrow> jsval \<Rightarrow> jsval" where
  "js_or a b = (if truthy a then a else b)"

definition nullish :: "jsval \<Rightarrow> bool" where
  "nullish v = (v = JUndefined \<or> v = JNull)"

definition js_nc :: "jsval \<Rightarrow> jsval \<Rightarrow> jsval" where
  "js_nc a b = (if nullish a then b else a)"

text \<open>\<^verbatim>\<open>typeof v === 'number'\<close>.\<close>

fun isNumber :: "jsval \<Rightarrow> bool" where
  "isNumber (JNum n) = True"
| "isNumber v = False"

text \<open>\<^verbatim>\<open>a < b\<close> and \<^verbatim>\<open>a <= b\<close> on numbers: every comparison with NaN is false.\<close>

fun num_less :: "jsnum \<Rightarrow> jsnum \<Rightarrow> bool" where
  "num_less NaN b = False"
| "num_less a NaN = False"
| "num_less (Fin x) (Fin y) = (x < y)"
| "num_less (Fin x) PosInf = True"
| "num_less NegInf (Fin y) = True"
| "num_less NegInf PosInf = True"
| "num_less a b = False"

fun num_le :: "jsnum \<Rightarrow> jsnum \<Rightarrow> bool" where
  "num_le NaN b = False"
| "num_le a NaN = False"
| "num_le (Fin x) (Fin y) = (x \<le> y)"
| "num_le NegInf b = True"
| "num_le a PosInf = True"
| "num_le a b = False"

text \<open>Reading a property: \<^verbatim>\<open>o.k\<close> on an object.\<close>

definition readProp :: "jsobj \<Rightarrow> string \<Rightarrow> jsval" where
  "readProp m k = (case m k of None \<Rightarrow> JUndefined | Some v \<Rightarrow> v)"

text \<open>
  \<^verbatim>\<open>v?.k\<close> on any value, and \<^verbatim>\<open>v.k\<close> on a value that is neither \<^verbatim>\<open>null\<close> nor
  \<^verbatim>\<open>undefined\<close>, for the property names the code reads (\<^verbatim>\<open>status\<close>, \<^verbatim>\<open>isOnline\<close>,
  \<^verbatim>\<open>_id\<close>, ...): only an object carries them.
\<close>

definition getp :: "jsval \<Rightarrow> string \<Rightarrow> jsval" where
  "getp v k = (case v of JObj m \<Rightarrow> readProp m k | _ \<Rightarrow> JUndefined)"

subsection \<open>Strings\<close>

fun joinComma :: "string list \<Rightarrow> string" where
  "joinComma [] = []"
| "joinComma [s] = s"
| "joinComma (s # t # ss) = s @ '','' @ joinComma (t # ss)"

text \<open>
  \<^verbatim>\<open>String(v)\<close>. An array joins its elements with commas, \<^verbatim>\<open>null\<close> and \<^verbatim>\<open>undefined\<close>
  elements giving the empty string; a plain object gives \<^verbatim>\<open>[object Object]\<close>.
\<close>

fun js_String :: "host \<Rightarrow> jsval \<Rightarrow> string" where
  "js_String h JUndefined = ''undefined''"
| "js_String h JNull = ''null''"
| "js_String h (JBool b) = (if b then ''true'' else ''false'')"
| "js_String h (JNum n) = NumberToString h n"
| "js_String h (JStr s) = s"
| "js_String h (JArr xs) =
     joinComma (map (\<lambda>x. if x = JUndefined \<or> x = JNull then [] else js_String h x) xs)"
| "js_String h (JObj m) = ''[object Object]''"

text \<open>
  \<^verbatim>\<open>toLowerCase\<close> on the ASCII letters. The code only compares its result with the
  ASCII word \<^verbatim>\<open>submitted\<close> and with the empty string.
\<close>

definition lowerChar :: "char \<Rightarrow> char" where
  "lowerChar c =
     (case map_of (zip ''ABCDEFGHIJKLMNOPQRSTUVWXYZ'' ''abcdefghijklmnopqrstuvwxyz'') c of
        None \<Rightarrow> c | Some d \<Rightarrow> d)"

definition toLowerCase :: "string \<Rightarrow> string" where
  "toLowerCase s = map lowerChar s"

text \<open>\<^verbatim>\<open>Number(v)\<close>; an array or object is converted through its string form.\<close>

fun js_Number :: "host \<Rightarrow> jsval \<Rightarrow> jsnum" where
  "js_Number h JUndefined = NaN"
| "js_Number h JNull = Fin 0"
| "js_Number h (JBool b) = (if b then Fin 1 else Fin 0)"
| "js_Number h (JNum n) = n"
| "js_Number h (JStr s) = StringToNumber h s"
| "js_Number h (JArr xs) = StringToNumber h (js_String h (JArr xs))"
| "js_Number h (JObj m) = StringToNumber h (js_String h (JObj m))"

subsection \<open>Object spread and arrays\<close>

fun decimal :: "nat \<Rightarrow> string" where
  "decimal n =
     (if n < 10 then [''0123456789'' ! n]
      else decimal (n div 10) @ [''0123456789'' ! (n mod 10)])"

text \<open>
  The own enumerable properties that \<^verbatim>\<open>{ ...v }\<close> copies: those of an object, the indexed
  elements of an array, the indexed characters of a string, none of any other value.
\<close>

fun ownProps :: "jsval \<Rightarrow> jsobj" where
  "ownProps (JObj m) = m"
| "ownProps (JArr xs) = map_of (zip (map decimal [0..<length xs]) xs)"
| "ownProps (JStr s) = map_of (zip (map decimal [0..<length s]) (map (\<lambda>c. JStr [c]) s))"
| "ownProps v = Map.empty"

text \<open>\<^verbatim>\<open>xs.findIndex(p)\<close>, with \<open>None\<close> for \<^verbatim>\<open>-1\<close>.\<close>

fun findIndex :: "('a \<Rightarrow> bool) \<Rightarrow> 'a list \<Rightarrow> nat option" where
  "findIndex p [] = None"
| "findIndex p (x # xs) = (if p x then Some 0 else map_option Suc (findIndex p xs))"

text \<open>\<^verbatim>\<open>copy.splice(i, 1)\<close> on a copy of the array.\<close>

definition splice1 :: "nat \<Rightarrow> 'a list \<Rightarrow> 'a list" where
  "splice1 i xs = take i xs @ drop (Suc i) xs"

section \<open>PriceAnnotator: \<^verbatim>\<open>computePriceMeta\<close>\<close>

record price_meta =
  basePrice :: jsnum
  discountedPrice :: jsnum
  discountPercent :: jsnum
  hasDiscount :: bool

text \<open>
  \<^verbatim>\<open>x.toFixed(2)\<close> rounds the exact value of the double to two decimals, half away from
  zero; from \<open>10\<^sup>2\<^sup>1\<close> on it prints the number itself.
\<close>

definition round2 :: "real \<Rightarrow> real" where
  "round2 x =
     (if x < 0 then - (real_of_int \<lfloor>- x * 100 + 1 / 2\<rfloor> / 100)
      else real_of_int \<lfloor>x * 100 + 1 / 2\<rfloor> / 100)"

text \<open>\<^verbatim>\<open>+x.toFixed(2)\<close>: the printed decimal is read back as the nearest double.\<close>

fun toFixed2 :: "host \<Rightarrow> jsnum \<Rightarrow> jsnum" where
  "toFixed2 h (Fin x) = (if 10 ^ 21 \<le> \<bar>x\<bar> then Fin x else Fin (fl h (round2 x)))"
| "toFixed2 h n = n"

text \<open>\<^verbatim>\<open>base * f\<close> for a finite factor \<open>f\<close>.\<close>

fun scale :: "host \<Rightarrow> jsnum \<Rightarrow> real \<Rightarrow> jsnum" where
  "scale h NaN f = NaN"
| "scale h (Fin b) f = Fin (fl h (b * f))"
| "scale h PosInf f = (if f = 0 then NaN else if 0 < f then PosInf else NegInf)"
| "scale h NegInf f = (if f = 0 then NaN else if 0 < f then NegInf else PosInf)"

text \<open>
  \<^verbatim>\<open>Number.isFinite(discount) ? Math.max(0, Math.min(100, discount)) : 0\<close>: always a
  finite number.
\<close>

fun clampDiscount :: "jsnum \<Rightarrow> real" where
  "clampDiscount (Fin d) = max 0 (min 100 d)"
| "clampDiscount n = 0"

definition priceBase :: "host \<Rightarrow> jsval \<Rightarrow> jsnum" where
  "priceBase h space =
     (let baseRaw = js_nc (js_nc (js_nc (getp space ''priceParking'') (getp space ''pricePerHour''))
                            (getp space ''price'')) (JNum (Fin 0));
          n = js_Number h baseRaw
      in if truthyNum n then n else Fin 0)"

definition computePriceMeta :: "host \<Rightarrow> jsval \<Rightarrow> price_meta" where
  "computePriceMeta h space =
     (let base = priceBase h space;
          rawDiscount = js_nc (getp space ''discount'') (JNum (Fin 0));
          discount = js_Number h rawDiscount;
          clamped = clampDiscount discount;
          discounted = toFixed2 h (scale h base (fl h (1 - fl h (clamped / 100))))
      in \<lparr> basePrice = toFixed2 h base,
           discountedPrice = discounted,
           discountPercent = Fin clamped,
           hasDiscount = (0 < clamped \<and> num_less discounted base) \<rparr>)"

definition priceMetaVal :: "price_meta \<Rightarrow> jsval" where
  "priceMetaVal pm =
     JObj [''basePrice'' \<mapsto> JNum (basePrice pm),
           ''discountedPrice'' \<mapsto> JNum (discountedPrice pm),
           ''discountPercent'' \<mapsto> JNum (discountPercent pm),
           ''hasDiscount'' \<mapsto> JBool (hasDiscount pm)]"

text \<open>\<^verbatim>\<open>{ ...s, __price: s.__price ?? computePriceMeta(s) }\<close>.\<close>

definition withPrice :: "host \<Rightarrow> jsval \<Rightarrow> jsobj" where
  "withPrice h s =
     (ownProps s)(''__price'' \<mapsto> js_nc (getp s ''__price'') (priceMetaVal (computePriceMeta h s)))"

section \<open>ApprovalFilter: \<^verbatim>\<open>onlyApproved\<close>\<close>

definition approved :: "host \<Rightarrow> jsval \<Rightarrow> bool" where
  "approved h s =
     (let status = toLowerCase (js_String h (js_or (getp s ''status'') (JStr [])));
          online = (if getp s ''isOnline'' \<noteq> JUndefined then truthy (getp s ''isOnline'') else False)
      in status = ''submitted'' \<and> online)"

fun onlyApproved :: "host \<Rightarrow> jsval \<Rightarrow> jsval list" where
  "onlyApproved h (JArr spaces) = filter (approved h) spaces"
| "onlyApproved h v = []"

section \<open>State of the buyer map screen\<close>

text \<open>
  The \<^verbatim>\<open>useState\<close> cells of \<^verbatim>\<open>Home\<close> that the modelled handlers read or write. The
  viewport, the search box, the route overlay and the sheet geometry are left out: no modelled
  handler reads them. Two logs record the effects that leave the component: the toasts shown
  and the requests sent to \<^verbatim>\<open>parkingService\<close>.

  \<open>spacesRef\<close> stands for the identity of the array held in \<^verbatim>\<open>parkingSpaces\<close>: it
  changes exactly when the setter receives a fresh array, which is what the dependency list
  \<^verbatim>\<open>[parkingSpaces]\<close> of the sync effect compares.
\<close>

datatype toast_kind = ToastError | ToastSuccess | ToastInfo

type_synonym toast = "toast_kind \<times> string"

datatype request =
    GetAllSpaces "string option" "string option" "bool option"
  | GetNearbySpaces jsnum jsnum "string option" "string option" "bool option"

datatype amenity = Covered | Security | Charging | Cctv | Wheelchair

record filter_state =
  amenities :: "amenity \<Rightarrow> bool"
  priceRange :: "jsnum \<times> jsnum"
  isPriceFilterActive :: bool

record home_state =
  parkingSpaces :: "jsobj list"
  spacesRef :: nat
  filteredSpaces :: "jsobj list"
  selectedSpace :: "jsobj option"
  currentLocation :: "(jsnum \<times> jsnum) option"
  startTime :: "string option"
  endTime :: "string option"
  loading :: bool
  showTimeFilterModal :: bool
  filters :: filter_state
  toasts :: "toast list"
  requests :: "request list"

definition initialFilters :: filter_state where
  "initialFilters =
     \<lparr> amenities = (\<lambda>a. False), priceRange = (Fin 0, Fin 1000), isPriceFilterActive = False \<rparr>"

definition initialState :: home_state where
  "initialState =
     \<lparr> parkingSpaces = [], spacesRef = 0, filteredSpaces = [], selectedSpace = None,
       currentLocation = None, startTime = None, endTime = None, loading = True,
       showTimeFilterModal = False, filters = initialFilters, toasts = [], requests = [] \<rparr>"

text \<open>\<^verbatim>\<open>startTime && endTime\<close> on the two \<^verbatim>\<open>string | null\<close> cells.\<close>

definition strTruthy :: "string option \<Rightarrow> bool" where
  "strTruthy s = (case s of None \<Rightarrow> False | Some t \<Rightarrow> t \<noteq> [])"

definition windowActive :: "home_state \<Rightarrow> bool" where
  "windowActive st = (strTruthy (startTime st) \<and> strTruthy (endTime st))"

text \<open>
  A state updater passed to a \<^verbatim>\<open>useState\<close> setter either returns the previous value
  itself, and the cell keeps its identity, or a fresh value.
\<close>

datatype 'a update = Unchanged | Replaced 'a

fun commit :: "'a \<Rightarrow> 'a update \<Rightarrow> 'a" where
  "commit prev Unchanged = prev"
| "commit prev (Replaced v) = v"

definition setParkingSpaces :: "jsobj list \<Rightarrow> home_state \<Rightarrow> home_state" where
  "setParkingSpaces v st = st\<lparr> parkingSpaces := v, spacesRef := Suc (spacesRef st) \<rparr>"

definition updateParkingSpaces :: "jsobj list update \<Rightarrow> home_state \<Rightarrow> home_state" where
  "updateParkingSpaces u st = (case u of Unchanged \<Rightarrow> st | Replaced v \<Rightarrow> setParkingSpaces v st)"

definition toast :: "toast_kind \<Rightarrow> string \<Rightarrow> home_state \<Rightarrow> home_state" where
  "toast k msg st = st\<lparr> toasts := toasts st @ [(k, msg)] \<rparr>"

text \<open>
  The effect \<^verbatim>\<open>useEffect(() => { setFilteredSpaces(parkingSpaces) }, [parkingSpaces])\<close>:
  after a handler has run, it fires if the array in \<^verbatim>\<open>parkingSpaces\<close> is a new one.
\<close>

definition syncFilteredSpaces :: "home_state \<Rightarrow> home_state" where
  "syncFilteredSpaces st = st\<lparr> filteredSpaces := parkingSpaces st \<rparr>"

definition runEffects :: "home_state \<Rightarrow> home_state \<Rightarrow> home_state" where
  "runEffects before after =
     (if spacesRef after \<noteq> spacesRef before then syncFilteredSpaces after else after)"

section \<open>RealtimeReconciler: \<^verbatim>\<open>handleParkingUpdate\<close> of the buyer map\<close>

text \<open>\<^verbatim>\<open>data.parkingId || data._id || data.id\<close>.\<close>

definition eventParkingId :: "jsval \<Rightarrow> jsval" where
  "eventParkingId data = js_or (js_or (getp data ''parkingId'') (getp data ''_id'')) (getp data ''id'')"

text \<open>
  \<^verbatim>\<open>typeof data.availableSpots === 'number' ? data.availableSpots
     : data.available || data.availableSpots\<close>.
\<close>

definition eventAvailableSpots :: "jsval \<Rightarrow> jsval" where
  "eventAvailableSpots data =
     (if isNumber (getp data ''availableSpots'') then getp data ''availableSpots''
      else js_or (getp data ''available'') (getp data ''availableSpots''))"

text \<open>
  \<^verbatim>\<open>s._id ? (typeof s._id === 'string' ? s._id : String(s._id)) : s.id\<close>.
\<close>

definition spaceSid :: "host \<Rightarrow> jsobj \<Rightarrow> jsval" where
  "spaceSid h s =
     (if truthy (readProp s ''_id'')
      then (case readProp s ''_id'' of JStr x \<Rightarrow> JStr x | v \<Rightarrow> JStr (js_String h v))
      else readProp s ''id'')"

text \<open>\<^verbatim>\<open>typeof availableSpots === 'number' && availableSpots <= 0\<close>.\<close>

fun numericAndNotPositive :: "jsval \<Rightarrow> bool" where
  "numericAndNotPositive (JNum n) = num_le n (Fin 0)"
| "numericAndNotPositive v = False"

text \<open>\<^verbatim>\<open>...(typeof availableSpots === 'number' ? { availableSpots } : {})\<close>.\<close>

definition spotsPatch :: "jsval \<Rightarrow> jsobj" where
  "spotsPatch availableSpots =
     (if isNumber availableSpots then [''availableSpots'' \<mapsto> availableSpots] else Map.empty)"

text \<open>
  The gate written out again in the insert branch and in the selected-space updater:
  \<^verbatim>\<open>(data.status && String(data.status).toLowerCase() !== 'submitted') ||
     (typeof data.isOnline !== 'undefined' && !data.isOnline)\<close>.
\<close>

definition rejectedByGate :: "host \<Rightarrow> jsval \<Rightarrow> bool" where
  "rejectedByGate h data =
     ((truthy (getp data ''status'') \<and> toLowerCase (js_String h (getp data ''status'')) \<noteq> ''submitted'')
      \<or> (getp data ''isOnline'' \<noteq> JUndefined \<and> \<not> truthy (getp data ''isOnline'')))"

text \<open>
  The updater given to \<^verbatim>\<open>setParkingSpaces\<close>; the one given to \<^verbatim>\<open>setFilteredSpaces\<close>
  is the same code, written a second time.
\<close>

definition updateSpaces :: "host \<Rightarrow> bool \<Rightarrow> jsval \<Rightarrow> jsobj list \<Rightarrow> jsobj list update" where
  "updateSpaces h win data prev =
     (let parkingId = eventParkingId data;
          availableSpots = eventAvailableSpots data;
          pid = js_String h parkingId;
          idx = findIndex (\<lambda>s. spaceSid h s = JStr pid) prev;
          incomingStatus = toLowerCase (js_String h (js_or (getp data ''status'') (JStr [])));
          incomingOnline =
            (if getp data ''isOnline'' \<noteq> JUndefined then truthy (getp data ''isOnline'') else True)
      in if (incomingStatus \<noteq> [] \<and> incomingStatus \<noteq> ''submitted'') \<or> incomingOnline = False then
           (case idx of Some i \<Rightarrow> Replaced (splice1 i prev) | None \<Rightarrow> Unchanged)
         else if win \<and> numericAndNotPositive availableSpots then
           (case idx of Some i \<Rightarrow> Replaced (splice1 i prev) | None \<Rightarrow> Unchanged)
         else
           (case idx of
              Some i \<Rightarrow> Replaced (prev[i := (prev ! i) ++ ownProps data ++ spotsPatch availableSpots])
            | None \<Rightarrow>
                if rejectedByGate h data then Unchanged
                else if win \<and> numericAndNotPositive availableSpots then Unchanged
                else Replaced (withPrice h data # prev)))"

text \<open>The updater given to \<^verbatim>\<open>setSelectedSpace\<close>.\<close>

definition updateSelected :: "host \<Rightarrow> bool \<Rightarrow> jsval \<Rightarrow> jsobj option \<Rightarrow> jsobj option" where
  "updateSelected h win data prev =
     (let parkingId = eventParkingId data;
          availableSpots = eventAvailableSpots data
      in case prev of
           None \<Rightarrow> None
         | Some p \<Rightarrow>
             if spaceSid h p = JStr (js_String h parkingId) then
               (if rejectedByGate h data then None
                else if win \<and> numericAndNotPositive availableSpots then None
                else Some (p ++ spotsPatch availableSpots ++ ownProps data))
             else Some p)"

text \<open>
  The socket handler, registered for both \<^verbatim>\<open>parking-updated\<close> and
  \<^verbatim>\<open>parking-released\<close>. It shows no toast and sends no request.
\<close>

definition handleParkingUpdate :: "host \<Rightarrow> jsval \<Rightarrow> home_state \<Rightarrow> home_state" where
  "handleParkingUpdate h data st =
     (if \<not> truthy data then st
      else (updateParkingSpaces (updateSpaces h (windowActive st) data (parkingSpaces st)) st)
             \<lparr> filteredSpaces :=
                 commit (filteredSpaces st) (updateSpaces h (windowActive st) data (filteredSpaces st)),
               selectedSpace := updateSelected h (windowActive st) data (selectedSpace st) \<rparr>)"

section \<open>The detail screen: \<^verbatim>\<open>ParkingDetails\<close>\<close>

text \<open>What a handler can throw: a type error of the language, or the failure of a service call.\<close>

datatype exn = TypeError | ServiceError

record details_state =
  space :: "jsobj option"
  detailToasts :: "toast list"

text \<open>
  \<^verbatim>\<open>typeof data.availableSpots === 'number' ? data.availableSpots
     : data.available ?? data.availableSpots\<close>.
\<close>

definition detailsAvailableSpots :: "jsval \<Rightarrow> jsval" where
  "detailsAvailableSpots data =
     (if isNumber (getp data ''availableSpots'') then getp data ''availableSpots''
      else js_nc (getp data ''available'') (getp data ''availableSpots''))"

text \<open>
  \<^verbatim>\<open>space._id && typeof space._id === 'object' && space._id.toString
     ? space._id.toString() : space._id\<close>: an array or object identifier is replaced by its
  string form.
\<close>

definition detailsSid :: "host \<Rightarrow> jsobj \<Rightarrow> jsval" where
  "detailsSid h sp =
     (case readProp sp ''_id'' of
        JArr xs \<Rightarrow> JStr (js_String h (JArr xs))
      | JObj m \<Rightarrow> JStr (js_String h (JObj m))
      | v \<Rightarrow> v)"

text \<open>
  The socket handler of the detail screen. The effect that registers it returns early while
  there is no space, so no handler runs then. The handler reads \<^verbatim>\<open>data.parkingId\<close>
  without a guard, which throws on a \<^verbatim>\<open>null\<close> or \<^verbatim>\<open>undefined\<close> payload.
\<close>

definition detailsHandleParkingUpdate :: "host \<Rightarrow> jsval \<Rightarrow> details_state \<Rightarrow> exn + details_state" where
  "detailsHandleParkingUpdate h data st =
     (case space st of
        None \<Rightarrow> Inr st
      | Some sp \<Rightarrow>
          if nullish data then Inl TypeError
          else
            (let parkingId = eventParkingId data;
                 availableSpots = detailsAvailableSpots data
             in if \<not> truthy parkingId \<or> \<not> isNumber availableSpots then Inr st
                else if js_String h parkingId = js_String h (detailsSid h sp)
                then Inr (st\<lparr> space := Some (sp(''availableSpots'' \<mapsto> availableSpots)) \<rparr>)
                else Inr st))"

section \<open>TimeFilterController: \<^verbatim>\<open>validateTimeSelection\<close>\<close>

text \<open>
  Dates are compared through their time values; a comparison with an invalid date is false,
  and so is a comparison of a difference that involves one.
\<close>

definition dateLess :: "int option \<Rightarrow> int option \<Rightarrow> bool" where
  "dateLess a b = (case (a, b) of (Some x, Some y) \<Rightarrow> x < y | _ \<Rightarrow> False)"

definition dateLe :: "int option \<Rightarrow> int option \<Rightarrow> bool" where
  "dateLe a b = (case (a, b) of (Some x, Some y) \<Rightarrow> x \<le> y | _ \<Rightarrow> False)"

text \<open>\<^verbatim>\<open>(endDate.getTime() - startDate.getTime()) / (1000 * 60)\<close>, nothing for NaN.\<close>

definition diffMinutes :: "int option \<Rightarrow> int option \<Rightarrow> real option" where
  "diffMinutes endDate startDate =
     (case (endDate, startDate) of
        (Some e, Some s) \<Rightarrow> Some (real_of_int (e - s) / (1000 * 60))
      | _ \<Rightarrow> None)"

text \<open>
  The result and the toasts shown; \<open>now\<close> is the time value of \<^verbatim>\<open>new Date()\<close> at the
  call.
\<close>

definition validateTimeSelection :: "host \<Rightarrow> int \<Rightarrow> string \<Rightarrow> string \<Rightarrow> bool \<times> toast list" where
  "validateTimeSelection h now start end' =
     (let startDate = DateParse h start;
          endDate = DateParse h end'
      in if dateLess startDate (Some now) then
           (False, [(ToastError, ''Start time cannot be in the past'')])
         else if dateLe endDate startDate then
           (False, [(ToastError, ''End time must be after start time'')])
         else if (case diffMinutes endDate startDate of Some d \<Rightarrow> d < 30 | None \<Rightarrow> False) then
           (False, [(ToastError, ''Minimum booking duration is 30 minutes'')])
         else (True, []))"

section \<open>Fetching: the handlers of \<^verbatim>\<open>Home\<close> that call \<^verbatim>\<open>parkingService\<close>\<close>

text \<open>
  The REST client is outside the repository. A call either throws or returns a value; what it
  does for each request is a parameter of every handler, and every call is logged in
  \<open>requests\<close>. \<open>hasGetAllSpaces\<close> is the test
  \<^verbatim>\<open>typeof parkingService.getAllSpaces === 'function'\<close>.
\<close>

datatype outcome = Throws | Returns jsval

record parking_service =
  hasGetAllSpaces :: bool
  respond :: "request \<Rightarrow> outcome"

definition logRequest :: "request \<Rightarrow> home_state \<Rightarrow> home_state" where
  "logRequest r st = st\<lparr> requests := requests st @ [r] \<rparr>"

text \<open>
  \<^verbatim>\<open>(spaces || []).map((s) => ({ ...s, __price: s.__price ?? computePriceMeta(s) }))\<close>:
  a truthy value that is not an array has no \<^verbatim>\<open>map\<close>, and reading \<^verbatim>\<open>s.__price\<close>
  of a \<^verbatim>\<open>null\<close> or \<^verbatim>\<open>undefined\<close> element throws.
\<close>

definition mapWithPrice :: "host \<Rightarrow> jsval \<Rightarrow> exn + jsobj list" where
  "mapWithPrice h spaces =
     (case js_or spaces (JArr []) of
        JArr xs \<Rightarrow> if list_ex nullish xs then Inl TypeError else Inr (map (withPrice h) xs)
      | _ \<Rightarrow> Inl TypeError)"

text \<open>\<^verbatim>\<open>allowed.filter((s) => Number(s.availableSpots) > 0)\<close>, applied when a window is set.\<close>

definition hasSpots :: "host \<Rightarrow> jsval \<Rightarrow> bool" where
  "hasSpots h s = num_less (Fin 0) (js_Number h (getp s ''availableSpots''))"

definition availableOnly :: "host \<Rightarrow> bool \<Rightarrow> jsval list \<Rightarrow> jsval list" where
  "availableOnly h win allowed = (if win then filter (hasSpots h) allowed else allowed)"

text \<open>
  \<^verbatim>\<open>onlyApproved(spacesWithPrice)\<close> on an array of annotated records, then the
  availability filter.
\<close>

definition approvedOfPriced :: "host \<Rightarrow> bool \<Rightarrow> jsobj list \<Rightarrow> jsobj list" where
  "approvedOfPriced h win spacesWithPrice =
     map ownProps (availableOnly h win (onlyApproved h (JArr (map JObj spacesWithPrice))))"

text \<open>
  \<^verbatim>\<open>onlyApproved(all).map((s) => ({ ...s, __price: ... }))\<close>, then the availability
  filter on the annotated records.
\<close>

definition pricedOfApproved :: "host \<Rightarrow> bool \<Rightarrow> jsval \<Rightarrow> jsobj list" where
  "pricedOfApproved h win spaces =
     map ownProps (availableOnly h win (map (\<lambda>s. JObj (withPrice h s)) (onlyApproved h spaces)))"

definition loadDefaultParkingMarkers ::
  "host \<Rightarrow> parking_service \<Rightarrow> jsnum \<Rightarrow> jsnum \<Rightarrow> home_state \<Rightarrow> home_state" where
  "loadDefaultParkingMarkers h svc lat lng st =
     (let win = windowActive st;
          st1 = st\<lparr> loading := True \<rparr>;
          allReq = GetAllSpaces (startTime st) (endTime st) (Some True);
          nearReq = GetNearbySpaces lat lng (startTime st) (endTime st) (Some True);
          st2 = (if hasGetAllSpaces svc then logRequest allReq st1 else st1);
          fromAll =
            (if hasGetAllSpaces svc then
               (case respond svc allReq of
                  Returns (JArr all) \<Rightarrow> if all \<noteq> [] then Some (pricedOfApproved h win (JArr all)) else None
                | _ \<Rightarrow> None)
             else None)
      in case fromAll of
           Some allowed \<Rightarrow> (setParkingSpaces allowed st2)\<lparr> loading := False \<rparr>
         | None \<Rightarrow>
             (case respond svc nearReq of
                Returns spaces \<Rightarrow>
                  (setParkingSpaces (pricedOfApproved h win spaces) (logRequest nearReq st2))
                    \<lparr> loading := False \<rparr>
              | Throws \<Rightarrow>
                  (toast ToastError ''Failed to load parking markers.''
                     (setParkingSpaces [] (logRequest nearReq st2)))\<lparr> loading := False \<rparr>))"

text \<open>
  \<^verbatim>\<open>setDefaultLocation\<close> and the success callback of \<^verbatim>\<open>getUserLocation\<close>: the first
  load, at the default or the reported position.
\<close>

definition loadAtLocation ::
  "host \<Rightarrow> parking_service \<Rightarrow> jsnum \<Rightarrow> jsnum \<Rightarrow> home_state \<Rightarrow> home_state" where
  "loadAtLocation h svc lat lng st =
     (loadDefaultParkingMarkers h svc lat lng (st\<lparr> currentLocation := Some (lat, lng) \<rparr>))
       \<lparr> loading := False \<rparr>"

text \<open>
  \<^verbatim>\<open>handleGoToCurrentLocation\<close>, \<^verbatim>\<open>handleSearchByCurrentLocation\<close> and the button that
  empties the search box: each loads the default markers again.
\<close>

definition handleGoToCurrentLocation :: "host \<Rightarrow> parking_service \<Rightarrow> home_state \<Rightarrow> home_state" where
  "handleGoToCurrentLocation h svc st =
     (case currentLocation st of
        Some (lat, lng) \<Rightarrow> loadDefaultParkingMarkers h svc lat lng st
      | None \<Rightarrow> toast ToastInfo ''Current location not available.'' st)"

definition handleSearchByCurrentLocation :: "host \<Rightarrow> parking_service \<Rightarrow> home_state \<Rightarrow> home_state" where
  "handleSearchByCurrentLocation h svc st =
     (case currentLocation st of
        Some (lat, lng) \<Rightarrow>
          loadDefaultParkingMarkers h svc lat lng
            (toast ToastSuccess ''Showing parking spaces around you'' st)
      | None \<Rightarrow> toast ToastInfo ''Current location not available.'' st)"

definition clearSearchBox :: "host \<Rightarrow> parking_service \<Rightarrow> home_state \<Rightarrow> home_state" where
  "clearSearchBox h svc st =
     (case currentLocation st of
        Some (lat, lng) \<Rightarrow> loadDefaultParkingMarkers h svc lat lng st
      | None \<Rightarrow> st)"

text \<open>
  \<^verbatim>\<open>handleLocationSelect(result)\<close>, with the latitude, longitude and address of the
  chosen geocoding result. The success toast names the count and the first part of the
  address.
\<close>

definition handleLocationSelect ::
  "host \<Rightarrow> parking_service \<Rightarrow> jsnum \<Rightarrow> jsnum \<Rightarrow> string \<Rightarrow> home_state \<Rightarrow> home_state" where
  "handleLocationSelect h svc latitude longitude address st =
     (let req = GetNearbySpaces latitude longitude (startTime st) (endTime st) (Some True);
          st1 = logRequest req (st\<lparr> loading := True \<rparr>)
      in case respond svc req of
           Throws \<Rightarrow>
             (toast ToastError ''Failed to fetch parking spaces for the selected location.'' st1)
               \<lparr> loading := False \<rparr>
         | Returns spaces \<Rightarrow>
             (case mapWithPrice h spaces of
                Inl e \<Rightarrow>
                  (toast ToastError ''Failed to fetch parking spaces for the selected location.'' st1)
                    \<lparr> loading := False \<rparr>
              | Inr spacesWithPrice \<Rightarrow>
                  (let allowed = approvedOfPriced h (windowActive st) spacesWithPrice;
                       st2 = setParkingSpaces allowed st1
                   in (if allowed = [] then
                         toast ToastInfo
                           ''No parking spaces found in this area. Try increasing the search radius or remove time filter.''
                           st2
                       else
                         toast ToastSuccess
                           (''Found '' @ decimal (length allowed) @ '' parking spaces near ''
                              @ takeWhile (\<lambda>c. c \<noteq> CHR '','') address)
                           st2)\<lparr> loading := False \<rparr>)))"

text \<open>
  The click handler of the button that applies the time filter. Its first line,
  \<^verbatim>\<open>if (startTime && endTime && !validateTimeSelection(startTime, endTime)) return\<close>,
  validates only when both times are set; the request goes to the proximity endpoint when a
  current location is known and to the unscoped listing otherwise. The two toast texts start
  with an emoji in the source, left out here.
\<close>

definition timeSelectionChecked :: "host \<Rightarrow> int \<Rightarrow> home_state \<Rightarrow> bool \<times> toast list" where
  "timeSelectionChecked h now st =
     (case (startTime st, endTime st) of
        (Some start, Some end') \<Rightarrow>
          if start \<noteq> [] \<and> end' \<noteq> [] then validateTimeSelection h now start end'
          else (True, [])
      | _ \<Rightarrow> (True, []))"

definition timeFilterRequest :: "home_state \<Rightarrow> request" where
  "timeFilterRequest st =
     (case currentLocation st of
        Some (lat, lng) \<Rightarrow> GetNearbySpaces lat lng (startTime st) (endTime st) (Some True)
      | None \<Rightarrow> GetAllSpaces (startTime st) (endTime st) (Some True))"

definition applyTimeFilter :: "host \<Rightarrow> parking_service \<Rightarrow> int \<Rightarrow> home_state \<Rightarrow> home_state" where
  "applyTimeFilter h svc now st =
     (let checked = timeSelectionChecked h now st
      in if \<not> fst checked then st\<lparr> toasts := toasts st @ snd checked \<rparr>
         else
           (let req = timeFilterRequest st;
                st1 = logRequest req (st\<lparr> loading := True \<rparr>);
                fetched = (case respond svc req of
                             Throws \<Rightarrow> Inl ServiceError
                           | Returns spaces \<Rightarrow> mapWithPrice h spaces)
            in case fetched of
                 Inl e \<Rightarrow> (toast ToastError ''Unable to apply time filter.'' st1)\<lparr> loading := False \<rparr>
               | Inr spacesWithPrice \<Rightarrow>
                   (toast ToastSuccess ''Time filter applied successfully!''
                      (setParkingSpaces (approvedOfPriced h (windowActive st) spacesWithPrice) st1))
                     \<lparr> showTimeFilterModal := False, loading := False \<rparr>))"

text \<open>
  The click handler of the button that clears the time filter. Its \<^verbatim>\<open>try\<close> has a
  \<^verbatim>\<open>finally\<close> and no \<^verbatim>\<open>catch\<close>: a failed fetch leaves the handler as a rejected
  promise.
\<close>

definition clearTimeFilter :: "host \<Rightarrow> parking_service \<Rightarrow> home_state \<Rightarrow> home_state" where
  "clearTimeFilter h svc st =
     (let req = (case currentLocation st of
                   Some (lat, lng) \<Rightarrow> GetNearbySpaces lat lng None None None
                 | None \<Rightarrow> GetAllSpaces None None None);
          st1 = logRequest req (st\<lparr> startTime := None, endTime := None, loading := True \<rparr>);
          fetched = (case respond svc req of
                       Throws \<Rightarrow> Inl ServiceError
                     | Returns spaces \<Rightarrow> mapWithPrice h spaces)
      in case fetched of
           Inl e \<Rightarrow> st1\<lparr> loading := False \<rparr>
         | Inr spacesWithPrice \<Rightarrow>
             (toast ToastInfo ''Time filter cleared''
                (setParkingSpaces (approvedOfPriced h False spacesWithPrice) st1))
               \<lparr> showTimeFilterModal := False, loading := False \<rparr>)"

section \<open>The other handlers and the screen as a state machine\<close>

text \<open>
  The \<^verbatim>\<open>onChange\<close> handler of the start-time input: a chosen end time that is not after
  the new start time is reset to the empty string.
\<close>

definition changeStartTime :: "host \<Rightarrow> string \<Rightarrow> home_state \<Rightarrow> home_state" where
  "changeStartTime h newStartTime st =
     (let st1 = st\<lparr> startTime := Some newStartTime \<rparr>
      in case endTime st of
           Some end' \<Rightarrow>
             if end' \<noteq> [] \<and> newStartTime \<noteq> [] \<and> dateLe (DateParse h end') (DateParse h newStartTime)
             then st1\<lparr> endTime := Some [] \<rparr> else st1
         | None \<Rightarrow> st1)"

definition changeEndTime :: "string \<Rightarrow> home_state \<Rightarrow> home_state" where
  "changeEndTime v st = st\<lparr> endTime := Some v \<rparr>"

text \<open>Selecting and deselecting a marker; the route request of a click is left out.\<close>

definition handleMarkerClick :: "jsobj \<Rightarrow> home_state \<Rightarrow> home_state" where
  "handleMarkerClick sp st = st\<lparr> selectedSpace := Some sp \<rparr>"

definition handleMarkerHover :: "jsobj \<Rightarrow> home_state \<Rightarrow> home_state" where
  "handleMarkerHover sp st = st\<lparr> selectedSpace := Some sp \<rparr>"

definition handleClosePopup :: "home_state \<Rightarrow> home_state" where
  "handleClosePopup st = st\<lparr> selectedSpace := None \<rparr>"

text \<open>The amenity and price controls of the filter sheet.\<close>

definition handleFilterToggle :: "amenity \<Rightarrow> home_state \<Rightarrow> home_state" where
  "handleFilterToggle a st =
     st\<lparr> filters := (filters st)\<lparr> amenities := (amenities (filters st))(a := \<not> amenities (filters st) a) \<rparr> \<rparr>"

definition handlePriceRangeChange :: "jsnum \<Rightarrow> jsnum \<Rightarrow> home_state \<Rightarrow> home_state" where
  "handlePriceRangeChange lo hi st =
     st\<lparr> filters := (filters st)\<lparr> priceRange := (lo, hi), isPriceFilterActive := True \<rparr> \<rparr>"

definition clearAllFilters :: "home_state \<Rightarrow> home_state" where
  "clearAllFilters st = st\<lparr> filters := initialFilters \<rparr>"

text \<open>The button that opens the time-filter modal, and the backdrop and close button that shut it.\<close>

definition openTimeFilterModal :: "home_state \<Rightarrow> home_state" where
  "openTimeFilterModal st = st\<lparr> showTimeFilterModal := True \<rparr>"

definition closeTimeFilterModal :: "home_state \<Rightarrow> home_state" where
  "closeTimeFilterModal st = st\<lparr> showTimeFilterModal := False \<rparr>"

text \<open>
  The error callback of the geolocation request: a toast, then \<^verbatim>\<open>setDefaultLocation\<close>
  with its fixed coordinates.
\<close>

definition locationError :: "host \<Rightarrow> parking_service \<Rightarrow> home_state \<Rightarrow> home_state" where
  "locationError h svc st =
     loadAtLocation h svc (Fin (286139 / 10000)) (Fin (772090 / 10000))
       (toast ToastError ''Could not get your location. Please enable location services.'' st)"

text \<open>
  Everything that can happen to the screen. A handler that awaits a service call is taken as
  one step, with the behaviour of the service at that call as its argument.
\<close>

datatype action =
    SocketEvent jsval
  | LoadAtLocation parking_service jsnum jsnum
  | LocationError parking_service
  | GoToCurrentLocation parking_service
  | SearchByCurrentLocation parking_service
  | ClearSearchBox parking_service
  | LocationSelect parking_service jsnum jsnum string
  | ApplyTimeFilter parking_service int
  | ClearTimeFilter parking_service
  | ChangeStartTime string
  | ChangeEndTime string
  | MarkerClick jsobj
  | MarkerHover jsobj
  | ClosePopup
  | FilterToggle amenity
  | PriceRangeChange jsnum jsnum
  | ClearAllFilters
  | OpenTimeFilterModal
  | CloseTimeFilterModal

fun handle :: "host \<Rightarrow> action \<Rightarrow> home_state \<Rightarrow> home_state" where
  "handle h (SocketEvent data) st = handleParkingUpdate h data st"
| "handle h (LoadAtLocation svc lat lng) st = loadAtLocation h svc lat lng st"
| "handle h (LocationError svc) st = locationError h svc st"
| "handle h (GoToCurrentLocation svc) st = handleGoToCurrentLocation h svc st"
| "handle h (SearchByCurrentLocation svc) st = handleSearchByCurrentLocation h svc st"
| "handle h (ClearSearchBox svc) st = clearSearchBox h svc st"
| "handle h (LocationSelect svc lat lng address) st = handleLocationSelect h svc lat lng address st"
| "handle h (ApplyTimeFilter svc now) st = applyTimeFilter h svc now st"
| "handle h (ClearTimeFilter svc) st = clearTimeFilter h svc st"
| "handle h (ChangeStartTime v) st = changeStartTime h v st"
| "handle h (ChangeEndTime v) st = changeEndTime v st"
| "handle h (MarkerClick sp) st = handleMarkerClick sp st"
| "handle h (MarkerHover sp) st = handleMarkerHover sp st"
| "handle h ClosePopup st = handleClosePopup st"
| "handle h (FilterToggle a) st = handleFilterToggle a st"
| "handle h (PriceRangeChange lo hi) st = handlePriceRangeChange lo hi st"
| "handle h ClearAllFilters st = clearAllFilters st"
| "handle h OpenTimeFilterModal st = openTimeFilterModal st"
| "handle h CloseTimeFilterModal st = closeTimeFilterModal st"

text \<open>
  Rendering has an effect of its own. While the data is loading the component returns the
  loading screen; otherwise, with the time-filter modal open, the \<^verbatim>\<open>disabled\<close> property of
  the apply button is
  \<^verbatim>\<open>startTime && endTime ? !validateTimeSelection(startTime, endTime) : true\<close>,
  so every such render validates the selection again and shows the toast of a failing one.
  \<open>now\<close> is the clock at that render.
\<close>

definition renderToasts :: "host \<Rightarrow> int \<Rightarrow> home_state \<Rightarrow> toast list" where
  "renderToasts h now st =
     (if loading st \<or> \<not> showTimeFilterModal st then [] else snd (timeSelectionChecked h now st))"

definition render :: "host \<Rightarrow> int \<Rightarrow> home_state \<Rightarrow> home_state" where
  "render h now st = st\<lparr> toasts := toasts st @ renderToasts h now st \<rparr>"

text \<open>The toasts of a series of renders of one state.\<close>

definition rendersToasts :: "host \<Rightarrow> int list \<Rightarrow> home_state \<Rightarrow> toast list" where
  "rendersToasts h renders st = concat (map (\<lambda>now. renderToasts h now st) renders)"

text \<open>
  One step: the handler, then the sync effect, then the renders that follow. How often the
  component renders after a handler is not fixed by the source (it depends on the batching of
  the framework and on what else renders the component again), so the renders of the step are
  an argument, each given by its clock; all of them come after the last state change of the
  handler, the earlier ones showing the loading screen.
\<close>

definition dispatch :: "host \<Rightarrow> action \<Rightarrow> int list \<Rightarrow> home_state \<Rightarrow> home_state" where
  "dispatch h a renders st = fold (render h) renders (runEffects st (handle h a st))"

fun run :: "host \<Rightarrow> (action \<times> int list) list \<Rightarrow> home_state \<Rightarrow> home_state" where
  "run h [] st = st"
| "run h ((a, renders) # steps) st = run h steps (dispatch h a renders st)"

section \<open>The statements of the specification, and sample data\<close>

text \<open>
  The resolved count in the words of the specification: the event's availableSpots if it is
  a number, else its available field.
\<close>

definition spec_resolvedSpots :: "jsval \<Rightarrow> jsval" where
  "spec_resolvedSpots data =
     (if isNumber (getp data ''availableSpots'') then getp data ''availableSpots''
      else getp data ''available'')"

text \<open>
  The removal condition in the words of the specification: the event carries a non-empty
  status other than \<^verbatim>\<open>submitted\<close> (compared in lower case), or its online flag, true when
  the field is absent, is false, or a time window is active and the resolved count is a number
  that is at most zero.
\<close>

definition spec_removalCondition :: "host \<Rightarrow> bool \<Rightarrow> jsval \<Rightarrow> bool" where
  "spec_removalCondition h win data =
     (let status = toLowerCase (js_String h (js_or (getp data ''status'') (JStr [])));
          online = (if getp data ''isOnline'' = JUndefined then True else truthy (getp data ''isOnline''))
      in (status \<noteq> [] \<and> status \<noteq> ''submitted'')
         \<or> online = False
         \<or> (win \<and> (case spec_resolvedSpots data of JNum n \<Rightarrow> num_le n (Fin 0) | _ \<Rightarrow> False)))"

text \<open>
  The stringified identifier of an entry, its \<^verbatim>\<open>_id\<close> or else its \<^verbatim>\<open>id\<close> in string
  form, and the removal of the entry matched by a stringified identifier \<open>pid\<close>: the first
  entry with that identifier is taken out, and a collection without one is left as it is.
\<close>

definition spec_spaceId :: "host \<Rightarrow> jsobj \<Rightarrow> string" where
  "spec_spaceId h s = js_String h (js_or (readProp s ''_id'') (readProp s ''id''))"

definition spec_removeEntry :: "host \<Rightarrow> string \<Rightarrow> jsobj list \<Rightarrow> jsobj list" where
  "spec_removeEntry h pid xs =
     (case findIndex (\<lambda>s. spec_spaceId h s = pid) xs of
        None \<Rightarrow> xs
      | Some i \<Rightarrow> take i xs @ drop (Suc i) xs)"

text \<open>
  An instance of the host parameters for the concrete runs below: numbers print as the
  decimal of their integer part, which is what the language does on the natural numbers used
  there; no string parses as a number; arithmetic is exact; three date strings parse, to their
  UTC time values.
\<close>

definition sampleHost :: host where
  "sampleHost =
     \<lparr> NumberToString = (\<lambda>n. case n of
            NaN \<Rightarrow> ''NaN'' | PosInf \<Rightarrow> ''Infinity'' | NegInf \<Rightarrow> ''-Infinity''
          | Fin x \<Rightarrow> decimal (nat \<lfloor>x\<rfloor>)),
       StringToNumber = (\<lambda>s. NaN),
       fl = (\<lambda>x. x),
       DateParse = map_of [(''2030-01-01T10:00'', 1893492000000),
                           (''2030-01-01T10:10'', 1893492600000),
                           (''2030-01-01T12:00'', 1893499200000)] \<rparr>"

definition spaceA :: jsobj where
  "spaceA = [''_id'' \<mapsto> JStr ''a1'', ''status'' \<mapsto> JStr ''submitted'', ''isOnline'' \<mapsto> JBool True,
             ''availableSpots'' \<mapsto> JNum (Fin 5), ''title'' \<mapsto> JStr ''Alpha'']"

definition spaceB :: jsobj where
  "spaceB = [''_id'' \<mapsto> JStr ''b2'', ''status'' \<mapsto> JStr ''submitted'', ''isOnline'' \<mapsto> JBool True,
             ''availableSpots'' \<mapsto> JNum (Fin 2), ''title'' \<mapsto> JStr ''Beta'']"

text \<open>The screen showing both spaces, the first one selected; then the same with a time window set.\<close>

definition shownState :: home_state where
  "shownState =
     initialState\<lparr> parkingSpaces := [spaceA, spaceB], spacesRef := 1, filteredSpaces := [spaceA, spaceB],
                   selectedSpace := Some spaceA, currentLocation := Some (Fin 28, Fin 77),
                   loading := False \<rparr>"

definition windowedState :: home_state where
  "windowedState =
     shownState\<lparr> startTime := Some ''2030-01-01T10:00'', endTime := Some ''2030-01-01T12:00'' \<rparr>"

text \<open>Sample payloads, each given by its fields.\<close>

definition rejectedEvent :: jsval where
  "rejectedEvent = JObj [''parkingId'' \<mapsto> JStr ''a1'', ''status'' \<mapsto> JStr ''Rejected'']"


definition spotsFields :: jsobj where
  "spotsFields = [''parkingId'' \<mapsto> JStr ''a1'', ''availableSpots'' \<mapsto> JNum (Fin 3),
                  ''title'' \<mapsto> JStr ''Alpha Plaza'']"

definition zeroAvailableEvent :: jsval where
  "zeroAvailableEvent = JObj [''parkingId'' \<mapsto> JStr ''a1'', ''available'' \<mapsto> JNum (Fin 0)]"

definition anonymousEvent :: jsval where
  "anonymousEvent = JObj [''availableSpots'' \<mapsto> JNum (Fin 3)]"

definition titleEvent :: jsval where
  "titleEvent = JObj [''parkingId'' \<mapsto> JStr ''a1'', ''title'' \<mapsto> JStr ''Alpha Plaza'']"

text \<open>An entry identified by a numeric \<^verbatim>\<open>id\<close> only, and an event that rejects it.\<close>

definition idOnlySpace :: jsobj where
  "idOnlySpace = [''id'' \<mapsto> JNum (Fin 5), ''status'' \<mapsto> JStr ''submitted'', ''isOnline'' \<mapsto> JBool True]"

definition idRejectedEvent :: jsval where
  "idRejectedEvent = JObj [''id'' \<mapsto> JNum (Fin 5), ''status'' \<mapsto> JStr ''rejected'']"

definition detailState :: details_state where
  "detailState = \<lparr> space = Some spaceA, detailToasts = [] \<rparr>"

text \<open>Sample records for the approval filter and the price annotator.\<close>

definition semiOnlineRecord :: jsval where
  "semiOnlineRecord =
     JObj [''_id'' \<mapsto> JStr ''c3'', ''status'' \<mapsto> JStr ''submitted'', ''isOnline'' \<mapsto> JNum (Fin 1)]"

definition negativePriceRecord :: jsval where
  "negativePriceRecord = JObj [''price'' \<mapsto> JNum (Fin (- 8)), ''discount'' \<mapsto> JNum (Fin 50)]"

definition tinyPriceRecord :: jsval where
  "tinyPriceRecord = JObj [''price'' \<mapsto> JNum (Fin (1 / 256)), ''discount'' \<mapsto> JNum (Fin 50)]"

definition discountedRecord :: jsval where
  "discountedRecord = JObj [''pricePerHour'' \<mapsto> JNum (Fin 80), ''discount'' \<mapsto> JNum (Fin 25)]"

text \<open>The value of \<^verbatim>\<open>clamped\<close> in \<^verbatim>\<open>computePriceMeta\<close>: the clamped discount of a record.\<close>

definition recordDiscount :: "host \<Rightarrow> jsval \<Rightarrow> real" where
  "recordDiscount h raw = clampDiscount (js_Number h (js_nc (getp raw ''discount'') (JNum (Fin 0))))"

text \<open>
  What the price bound needs of the rounding to the nearest double: it is monotone and
  leaves 0 and 1, which are doubles, as they are.
\<close>

definition roundsToNearest :: "host \<Rightarrow> bool" where
  "roundsToNearest h = (mono (fl h) \<and> fl h 0 = 0 \<and> fl h 1 = 1)"

text \<open>
  Three behaviours of the REST service: every call fails; every call returns the two sample
  spaces; the listing returns an empty array and the proximity request fails. Then the screen
  with a window of ten minutes chosen.
\<close>

definition failingService :: parking_service where
  "failingService = \<lparr> hasGetAllSpaces = True, respond = (\<lambda>r. Throws) \<rparr>"

definition sampleService :: parking_service where
  "sampleService =
     \<lparr> hasGetAllSpaces = True, respond = (\<lambda>r. Returns (JArr [JObj spaceA, JObj spaceB])) \<rparr>"

definition emptyListingService :: parking_service where
  "emptyListingService =
     \<lparr> hasGetAllSpaces = True,
       respond = (\<lambda>r. case r of GetAllSpaces s e online \<Rightarrow> Returns (JArr [])
                          | GetNearbySpaces lat lng s e online \<Rightarrow> Throws) \<rparr>"

definition shortWindowState :: home_state where
  "shortWindowState =
     shownState\<lparr> startTime := Some ''2030-01-01T10:00'', endTime := Some ''2030-01-01T10:10'' \<rparr>"

section \<open>Helper lemmas on the state\<close>

lemma parkingSpaces_update [simp]:
  "parkingSpaces (updateParkingSpaces u st) = commit (parkingSpaces st) u"
  by (cases u) (simp_all add: updateParkingSpaces_def setParkingSpaces_def)

lemma other_fields_update [simp]:
  "filteredSpaces (updateParkingSpaces u st) = filteredSpaces st"
  "selectedSpace (updateParkingSpaces u st) = selectedSpace st"
  "toasts (updateParkingSpaces u st) = toasts st"
  "requests (updateParkingSpaces u st) = requests st"
  by (cases u; simp add: updateParkingSpaces_def setParkingSpaces_def)+

lemma toast_fields [simp]:
  "parkingSpaces (toast k m st) = parkingSpaces st"
  "filteredSpaces (toast k m st) = filteredSpaces st"
  "spacesRef (toast k m st) = spacesRef st"
  "requests (toast k m st) = requests st"
  "toasts (toast k m st) = toasts st @ [(k, m)]"
  "currentLocation (toast k m st) = currentLocation st"
  "startTime (toast k m st) = startTime st"
  "endTime (toast k m st) = endTime st"
  "loading (toast k m st) = loading st"
  "showTimeFilterModal (toast k m st) = showTimeFilterModal st"
  by (simp_all add: toast_def)

lemma logRequest_fields [simp]:
  "parkingSpaces (logRequest r st) = parkingSpaces st"
  "filteredSpaces (logRequest r st) = filteredSpaces st"
  "spacesRef (logRequest r st) = spacesRef st"
  "requests (logRequest r st) = requests st @ [r]"
  "toasts (logRequest r st) = toasts st"
  by (simp_all add: logRequest_def)

lemma setParkingSpaces_fields [simp]:
  "parkingSpaces (setParkingSpaces v st) = v"
  "filteredSpaces (setParkingSpaces v st) = filteredSpaces st"
  "spacesRef (setParkingSpaces v st) = Suc (spacesRef st)"
  "requests (setParkingSpaces v st) = requests st"
  "toasts (setParkingSpaces v st) = toasts st"
  by (simp_all add: setParkingSpaces_def)

lemma runEffects_fields:
  "parkingSpaces (runEffects st st') = parkingSpaces st'"
  "filteredSpaces (runEffects st st') = (if spacesRef st' \<noteq> spacesRef st then parkingSpaces st' else filteredSpaces st')"
  by (simp_all add: runEffects_def syncFilteredSpaces_def)

text \<open>A render changes the toasts only, and what it shows depends on four cells.\<close>

lemma renderToasts_cong:
  assumes "loading st' = loading st" "showTimeFilterModal st' = showTimeFilterModal st"
      and "startTime st' = startTime st" "endTime st' = endTime st"
  shows "renderToasts h now st' = renderToasts h now st"
  using assms by (simp add: renderToasts_def timeSelectionChecked_def)

lemma rendersToasts_cong:
  assumes "loading st' = loading st" "showTimeFilterModal st' = showTimeFilterModal st"
      and "startTime st' = startTime st" "endTime st' = endTime st"
  shows "rendersToasts h renders st' = rendersToasts h renders st"
  using renderToasts_cong[OF assms] by (simp add: rendersToasts_def)

lemma render_fields [simp]:
  "parkingSpaces (render h now st) = parkingSpaces st"
  "filteredSpaces (render h now st) = filteredSpaces st"
  "spacesRef (render h now st) = spacesRef st"
  "requests (render h now st) = requests st"
  "loading (render h now st) = loading st"
  "showTimeFilterModal (render h now st) = showTimeFilterModal st"
  "startTime (render h now st) = startTime st"
  "endTime (render h now st) = endTime st"
  "toasts (render h now st) = toasts st @ renderToasts h now st"
  by (simp_all add: render_def)

lemma fold_render_fields [simp]:
  "parkingSpaces (fold (render h) renders st) = parkingSpaces st"
  "filteredSpaces (fold (render h) renders st) = filteredSpaces st"
  "requests (fold (render h) renders st) = requests st"
  by (induction renders arbitrary: st; simp)+

lemma fold_render_toasts:
  "toasts (fold (render h) renders st) = toasts st @ rendersToasts h renders st"
proof (induction renders arbitrary: st)
  case Nil
  then show ?case by (simp add: rendersToasts_def)
next
  case (Cons now renders)
  have "rendersToasts h renders (render h now st) = rendersToasts h renders st"
    by (rule rendersToasts_cong) simp_all
  with Cons show ?case by (simp add: rendersToasts_def)
qed

lemma sample_sid: "spaceSid h spaceA = JStr ''a1''" "spaceSid h spaceB = JStr ''b2''"
  by (simp_all add: spaceSid_def spaceA_def spaceB_def readProp_def)

section \<open>The reconciler and the removal condition\<close>

text \<open>
  Claim C1 says that every event whose removal condition holds removes the entry matched by
  its stringified identifier from the full and the filtered collection and clears the
  selection that held it. With a time window set, the event
  \<^verbatim>\<open>{parkingId: "a1", available: 0}\<close> satisfies the condition, its resolved count being
  the number 0, and the first sample space is the entry it matches; the handler resolves the
  count with \<^verbatim>\<open>||\<close>, gets \<^verbatim>\<open>undefined\<close>, and merges the event into the entry, which
  stays in both collections and stays selected.
\<close>

theorem removal_condition_missed_on_zero_available:
  "windowActive windowedState
   \<and> spec_resolvedSpots zeroAvailableEvent = JNum (Fin 0)
   \<and> spec_removalCondition sampleHost (windowActive windowedState) zeroAvailableEvent
   \<and> parkingSpaces windowedState = [spaceA, spaceB]
   \<and> filteredSpaces windowedState = [spaceA, spaceB]
   \<and> selectedSpace windowedState = Some spaceA
   \<and> spec_spaceId sampleHost spaceA = js_String sampleHost (eventParkingId zeroAvailableEvent)
   \<and> spec_removeEntry sampleHost (js_String sampleHost (eventParkingId zeroAvailableEvent))
         [spaceA, spaceB] = [spaceB]
   \<and> parkingSpaces (handleParkingUpdate sampleHost zeroAvailableEvent windowedState)
       = [spaceA ++ ownProps zeroAvailableEvent, spaceB]
   \<and> filteredSpaces (handleParkingUpdate sampleHost zeroAvailableEvent windowedState)
       = [spaceA ++ ownProps zeroAvailableEvent, spaceB]
   \<and> selectedSpace (handleParkingUpdate sampleHost zeroAvailableEvent windowedState)
       = Some (spaceA ++ ownProps zeroAvailableEvent)"
proof -
  have w: "windowActive windowedState"
    by (simp add: windowActive_def windowedState_def shownState_def strTruthy_def)
  have r: "spec_resolvedSpots zeroAvailableEvent = JNum (Fin 0)"
    by (simp add: spec_resolvedSpots_def zeroAvailableEvent_def getp_def readProp_def)
  have c: "spec_removalCondition sampleHost True zeroAvailableEvent"
    by (simp add: spec_removalCondition_def r Let_def)
  have st: "parkingSpaces windowedState = [spaceA, spaceB]"
           "filteredSpaces windowedState = [spaceA, spaceB]"
           "selectedSpace windowedState = Some spaceA"
    by (simp_all add: windowedState_def shownState_def)
  have e: "eventParkingId zeroAvailableEvent = JStr ''a1''"
    by (simp add: eventParkingId_def zeroAvailableEvent_def getp_def readProp_def js_or_def)
  have i: "spec_spaceId sampleHost spaceA = ''a1''" "spec_spaceId sampleHost spaceB = ''b2''"
    by (simp_all add: spec_spaceId_def spaceA_def spaceB_def readProp_def js_or_def)
  have m: "spec_removeEntry sampleHost ''a1'' [spaceA, spaceB] = [spaceB]"
    by (simp add: spec_removeEntry_def i)
  have a: "eventAvailableSpots zeroAvailableEvent = JUndefined"
    by (simp add: eventAvailableSpots_def zeroAvailableEvent_def getp_def readProp_def js_or_def)
  have s: "getp zeroAvailableEvent ''status'' = JUndefined"
          "getp zeroAvailableEvent ''isOnline'' = JUndefined"
    by (simp_all add: zeroAvailableEvent_def getp_def readProp_def)
  have u: "updateSpaces sampleHost True zeroAvailableEvent [spaceA, spaceB]
             = Replaced [spaceA ++ ownProps zeroAvailableEvent, spaceB]"
    by (simp add: updateSpaces_def Let_def e a s js_or_def toLowerCase_def sample_sid spotsPatch_def)
  have v: "updateSelected sampleHost True zeroAvailableEvent (Some spaceA)
             = Some (spaceA ++ ownProps zeroAvailableEvent)"
    by (simp add: updateSelected_def Let_def e a s sample_sid spotsPatch_def rejectedByGate_def)
  have t: "truthy zeroAvailableEvent"
    by (simp add: zeroAvailableEvent_def)
  have p: "parkingSpaces (handleParkingUpdate sampleHost zeroAvailableEvent windowedState)
             = [spaceA ++ ownProps zeroAvailableEvent, spaceB]"
          "filteredSpaces (handleParkingUpdate sampleHost zeroAvailableEvent windowedState)
             = [spaceA ++ ownProps zeroAvailableEvent, spaceB]"
          "selectedSpace (handleParkingUpdate sampleHost zeroAvailableEvent windowedState)
             = Some (spaceA ++ ownProps zeroAvailableEvent)"
    by (simp_all add: handleParkingUpdate_def t w st u v)
  show ?thesis
    using w r c st m p by (simp add: e i)
qed

text \<open>
  The matcher of the handler puts the \<^verbatim>\<open>_id\<close> of an entry in string form and takes its
  \<^verbatim>\<open>id\<close> as it is. An entry that has only the numeric \<^verbatim>\<open>id\<close> 5 has the stringified
  identifier of the event \<^verbatim>\<open>{id: 5, status: "rejected"}\<close>, which satisfies the removal
  condition, and the strict comparison of the number with the string finds no entry.
\<close>

lemma id_fallback_not_stringified:
  "spec_removalCondition sampleHost False idRejectedEvent
   \<and> spec_spaceId sampleHost idOnlySpace = js_String sampleHost (eventParkingId idRejectedEvent)
   \<and> spec_removeEntry sampleHost (js_String sampleHost (eventParkingId idRejectedEvent)) [idOnlySpace] = []
   \<and> updateSpaces sampleHost False idRejectedEvent [idOnlySpace] = Unchanged"
proof -
  have e: "eventParkingId idRejectedEvent = JNum (Fin 5)"
    by (simp add: eventParkingId_def idRejectedEvent_def getp_def readProp_def js_or_def)
  have n: "NumberToString sampleHost (Fin 5) = ''5''"
    by (simp add: sampleHost_def)
  have l: "toLowerCase (js_String sampleHost (js_or (getp idRejectedEvent ''status'') (JStr []))) = ''rejected''"
    by (simp add: idRejectedEvent_def getp_def readProp_def js_or_def toLowerCase_def lowerChar_def)
  have c: "spec_removalCondition sampleHost False idRejectedEvent"
    by (simp add: spec_removalCondition_def Let_def l)
  have i: "spec_spaceId sampleHost idOnlySpace = ''5''"
    by (simp add: spec_spaceId_def idOnlySpace_def readProp_def js_or_def n)
  have d: "spaceSid sampleHost idOnlySpace = JNum (Fin 5)"
    by (simp add: spaceSid_def idOnlySpace_def readProp_def)
  have u: "updateSpaces sampleHost False idRejectedEvent [idOnlySpace] = Unchanged"
    by (simp add: updateSpaces_def Let_def e n l d)
  show ?thesis
    using c u by (simp add: e n i spec_removeEntry_def)
qed

section \<open>The reconciler merges an event into an existing entry\<close>


lemma findIndex_Some_holds: "findIndex p xs = Some i \<Longrightarrow> p (xs ! i)"
  by (induction xs arbitrary: i) (auto split: if_splits)

lemma findIndex_None: "findIndex p xs = None \<longleftrightarrow> (\<forall>x \<in> set xs. \<not> p x)"
  by (induction xs) auto






section \<open>Resolving the available-spot count\<close>

text \<open>Both handlers take a numeric \<^verbatim>\<open>availableSpots\<close> field as it is.\<close>

lemma resolve_numeric:
  "getp data ''availableSpots'' = JNum n \<Longrightarrow>
     eventAvailableSpots data = JNum n \<and> detailsAvailableSpots data = JNum n"
  by (simp add: eventAvailableSpots_def detailsAvailableSpots_def)

text \<open>
  Claim C3 says that an event without a numeric availableSpots resolves to its available
  field, under one rule for both handlers. At the event \<^verbatim>\<open>{parkingId: "a1", available: 0}\<close>
  the detail screen resolves the count to 0, and the buyer map, which writes
  \<^verbatim>\<open>||\<close> where the detail screen writes \<^verbatim>\<open>??\<close>, resolves it to \<^verbatim>\<open>undefined\<close>: with a
  time window set the entry is then not removed and keeps its old count of 5.
\<close>

theorem home_resolution_loses_zero_available:
  "eventAvailableSpots zeroAvailableEvent = JUndefined
   \<and> detailsAvailableSpots zeroAvailableEvent = JNum (Fin 0)
   \<and> parkingSpaces (handleParkingUpdate sampleHost zeroAvailableEvent windowedState)
       = [spaceA ++ ownProps zeroAvailableEvent, spaceB]
   \<and> readProp (spaceA ++ ownProps zeroAvailableEvent) ''availableSpots'' = JNum (Fin 5)"
proof -
  have a: "eventAvailableSpots zeroAvailableEvent = JUndefined"
    by (simp add: eventAvailableSpots_def zeroAvailableEvent_def getp_def readProp_def js_or_def)
  have d: "detailsAvailableSpots zeroAvailableEvent = JNum (Fin 0)"
    by (simp add: detailsAvailableSpots_def zeroAvailableEvent_def getp_def readProp_def
          js_nc_def nullish_def)
  have e: "eventParkingId zeroAvailableEvent = JStr ''a1''"
    by (simp add: eventParkingId_def zeroAvailableEvent_def getp_def readProp_def js_or_def)
  have s: "getp zeroAvailableEvent ''status'' = JUndefined"
          "getp zeroAvailableEvent ''isOnline'' = JUndefined"
    by (simp_all add: zeroAvailableEvent_def getp_def readProp_def)
  have u: "updateSpaces sampleHost True zeroAvailableEvent [spaceA, spaceB]
             = Replaced [spaceA ++ ownProps zeroAvailableEvent, spaceB]"
    by (simp add: updateSpaces_def Let_def e a s js_or_def toLowerCase_def sample_sid spotsPatch_def)
  have w: "windowActive windowedState"
    by (simp add: windowActive_def windowedState_def shownState_def strTruthy_def)
  have p: "parkingSpaces windowedState = [spaceA, spaceB]"
    by (simp add: windowedState_def shownState_def)
  have t: "truthy zeroAvailableEvent"
    by (simp add: zeroAvailableEvent_def)
  have r: "(spaceA ++ ownProps zeroAvailableEvent) ''availableSpots'' = Some (JNum (Fin 5))"
    by (simp add: spaceA_def zeroAvailableEvent_def map_add_def)
  show ?thesis
    by (simp add: a d handleParkingUpdate_def w p u t readProp_def r)
qed

section \<open>Payloads with missing fields\<close>

text \<open>
  Claim C4, as amended. The handler of the detail screen drops every payload, other than
  \<^verbatim>\<open>null\<close> and \<^verbatim>\<open>undefined\<close>, that has no identifier or whose resolved count is not a
  number: the displayed space and the toasts are unchanged. The handler of the buyer map drops
  a falsy payload such as \<^verbatim>\<open>null\<close>, leaving every projection unchanged, and for no
  payload does it show a toast or send a request.
\<close>

theorem incomplete_payload_dropped:
  "(\<not> nullish data \<and> (\<not> truthy (eventParkingId data) \<or> \<not> isNumber (detailsAvailableSpots data))
      \<longrightarrow> detailsHandleParkingUpdate h data dst = Inr dst)
   \<and> (\<not> truthy data \<longrightarrow> handleParkingUpdate h data st = st)
   \<and> toasts (handleParkingUpdate h data st) = toasts st
   \<and> requests (handleParkingUpdate h data st) = requests st"
  by (auto simp: detailsHandleParkingUpdate_def handleParkingUpdate_def Let_def split: option.splits)

text \<open>
  The detail screen at the payload \<^verbatim>\<open>{availableSpots: 3}\<close>, which has no identifier, and
  the buyer map at the payload \<^verbatim>\<open>null\<close>.
\<close>

theorem incomplete_payload_dropped_witness:
  "\<not> nullish anonymousEvent \<and> \<not> truthy (eventParkingId anonymousEvent)
   \<and> detailsHandleParkingUpdate sampleHost anonymousEvent detailState = Inr detailState
   \<and> \<not> truthy JNull \<and> handleParkingUpdate sampleHost JNull shownState = shownState"
proof -
  have n: "\<not> nullish anonymousEvent"
    by (simp add: nullish_def anonymousEvent_def)
  have i: "\<not> truthy (eventParkingId anonymousEvent)"
    by (simp add: eventParkingId_def anonymousEvent_def getp_def readProp_def js_or_def)
  show ?thesis
    using incomplete_payload_dropped[of anonymousEvent sampleHost detailState shownState]
          incomplete_payload_dropped[of JNull sampleHost detailState shownState] n i
    by simp
qed

text \<open>
  The claim as stated fails on the buyer map. The payload \<^verbatim>\<open>{availableSpots: 3}\<close> has no
  identifier and is inserted into the empty collection as a new entry; the payload
  \<^verbatim>\<open>{parkingId: "a1", title: "Alpha Plaza"}\<close> has no numeric count and its title is merged
  into the entry.
\<close>

theorem incomplete_payload_dropped_counterexample:
  "\<not> truthy (eventParkingId anonymousEvent)
   \<and> parkingSpaces initialState = []
   \<and> parkingSpaces (handleParkingUpdate sampleHost anonymousEvent initialState)
       = [withPrice sampleHost anonymousEvent]
   \<and> \<not> isNumber (eventAvailableSpots titleEvent)
   \<and> parkingSpaces (handleParkingUpdate sampleHost titleEvent shownState)
       = [spaceA ++ ownProps titleEvent, spaceB]
   \<and> readProp (spaceA ++ ownProps titleEvent) ''title'' = JStr ''Alpha Plaza''
   \<and> readProp spaceA ''title'' = JStr ''Alpha''"
proof -
  have i: "eventParkingId anonymousEvent = JUndefined"
    by (simp add: eventParkingId_def anonymousEvent_def getp_def readProp_def js_or_def)
  have a: "eventAvailableSpots anonymousEvent = JNum (Fin 3)"
    by (simp add: eventAvailableSpots_def anonymousEvent_def getp_def readProp_def)
  have s: "getp anonymousEvent ''status'' = JUndefined" "getp anonymousEvent ''isOnline'' = JUndefined"
    by (simp_all add: anonymousEvent_def getp_def readProp_def)
  have u: "updateSpaces sampleHost False anonymousEvent [] = Replaced [withPrice sampleHost anonymousEvent]"
    by (simp add: updateSpaces_def Let_def i a s js_or_def toLowerCase_def rejectedByGate_def)
  have w: "\<not> windowActive initialState" "\<not> windowActive shownState"
    by (simp_all add: windowActive_def initialState_def shownState_def strTruthy_def)
  have t: "truthy anonymousEvent" "truthy titleEvent"
    by (simp_all add: anonymousEvent_def titleEvent_def)
  have i2: "eventParkingId titleEvent = JStr ''a1''"
    by (simp add: eventParkingId_def titleEvent_def getp_def readProp_def js_or_def)
  have a2: "eventAvailableSpots titleEvent = JUndefined"
    by (simp add: eventAvailableSpots_def titleEvent_def getp_def readProp_def js_or_def)
  have s2: "getp titleEvent ''status'' = JUndefined" "getp titleEvent ''isOnline'' = JUndefined"
    by (simp_all add: titleEvent_def getp_def readProp_def)
  have u2: "updateSpaces sampleHost False titleEvent [spaceA, spaceB]
              = Replaced [spaceA ++ ownProps titleEvent, spaceB]"
    by (simp add: updateSpaces_def Let_def i2 a2 s2 js_or_def toLowerCase_def sample_sid spotsPatch_def)
  have p: "parkingSpaces initialState = []" "parkingSpaces shownState = [spaceA, spaceB]"
    by (simp_all add: initialState_def shownState_def)
  have r: "readProp (spaceA ++ ownProps titleEvent) ''title'' = JStr ''Alpha Plaza''"
          "readProp spaceA ''title'' = JStr ''Alpha''"
    by (simp_all add: readProp_def spaceA_def titleEvent_def map_add_def)
  show ?thesis
    by (simp add: handleParkingUpdate_def w t p u u2 i a2 r)
qed

section \<open>The detail screen changes the spot count only\<close>

text \<open>The identifier the handler compares is the string form of the \<^verbatim>\<open>_id\<close> field.\<close>

lemma detailsSid_string: "js_String h (detailsSid h sp) = js_String h (readProp sp ''_id'')"
  by (cases "readProp sp ''_id''") (simp_all add: detailsSid_def)

text \<open>What the handler returns while a space is displayed.\<close>

lemma details_result:
  assumes "space st = Some sp"
  shows "detailsHandleParkingUpdate h data st =
           (if nullish data then Inl TypeError
            else if truthy (eventParkingId data)
                    \<and> js_String h (eventParkingId data) = js_String h (readProp sp ''_id'')
                    \<and> isNumber (detailsAvailableSpots data)
                 then Inr (st\<lparr> space := Some (sp(''availableSpots'' \<mapsto> detailsAvailableSpots data)) \<rparr>)
                 else Inr st)"
  using assms
  by (simp add: detailsHandleParkingUpdate_def Let_def detailsSid_string)

text \<open>
  Claim C10. While a space is displayed, the handler of the detail screen overwrites its
  availableSpots with the resolved count when the payload has an identifier (a truthy one;
  a falsy one counts as missing) whose string form is that of the space's identifier and the
  resolved count is a number, and changes nothing
  for every other payload (on \<^verbatim>\<open>null\<close> and \<^verbatim>\<open>undefined\<close> it throws and sets no state).
  Whenever it returns, the space is still there, every field other than availableSpots has
  its previous value, and no toast was shown: a status or an offline flag never removes the
  space.
\<close>

theorem detail_handler_changes_spots_only:
  assumes "space st = Some sp"
  shows "detailsHandleParkingUpdate h data st =
           (if nullish data then Inl TypeError
            else if truthy (eventParkingId data)
                    \<and> js_String h (eventParkingId data) = js_String h (readProp sp ''_id'')
                    \<and> isNumber (detailsAvailableSpots data)
                 then Inr (st\<lparr> space := Some (sp(''availableSpots'' \<mapsto> detailsAvailableSpots data)) \<rparr>)
                 else Inr st)
       \<and> (\<forall>st'. detailsHandleParkingUpdate h data st = Inr st' \<longrightarrow>
             (\<exists>sp'. space st' = Some sp' \<and> (\<forall>k. k \<noteq> ''availableSpots'' \<longrightarrow> sp' k = sp k))
             \<and> detailToasts st' = detailToasts st)"
proof -
  have frame: "(\<exists>sp'. space st' = Some sp' \<and> (\<forall>k. k \<noteq> ''availableSpots'' \<longrightarrow> sp' k = sp k))
             \<and> detailToasts st' = detailToasts st"
    if "detailsHandleParkingUpdate h data st = Inr st'" for st'
  proof -
    from that have "st' = st \<or> st' = st\<lparr> space := Some (sp(''availableSpots'' \<mapsto> detailsAvailableSpots data)) \<rparr>"
      unfolding details_result[OF assms] by (auto split: if_splits)
    then show ?thesis using assms by auto
  qed
  show ?thesis using details_result[OF assms] frame by blast
qed


text \<open>
  The detail screen showing the first sample space: the event
  \<^verbatim>\<open>{parkingId: "a1", availableSpots: 3, title: "Alpha Plaza"}\<close> sets the count to 3 and
  leaves the title, and the event \<^verbatim>\<open>{parkingId: "a1", status: "Rejected"}\<close> changes
  nothing.
\<close>

theorem detail_handler_changes_spots_only_witness:
  "space detailState = Some spaceA
   \<and> detailsHandleParkingUpdate sampleHost (JObj spotsFields) detailState
       = Inr (detailState\<lparr> space := Some (spaceA(''availableSpots'' \<mapsto> JNum (Fin 3))) \<rparr>)
   \<and> readProp (spaceA(''availableSpots'' \<mapsto> JNum (Fin 3))) ''title'' = JStr ''Alpha''
   \<and> detailsHandleParkingUpdate sampleHost rejectedEvent detailState = Inr detailState"
proof -
  have s: "space detailState = Some spaceA"
    by (simp add: detailState_def)
  have i: "eventParkingId (JObj spotsFields) = JStr ''a1''" "eventParkingId rejectedEvent = JStr ''a1''"
    by (simp_all add: eventParkingId_def spotsFields_def rejectedEvent_def getp_def readProp_def js_or_def)
  have a: "detailsAvailableSpots (JObj spotsFields) = JNum (Fin 3)"
          "detailsAvailableSpots rejectedEvent = JUndefined"
    by (simp_all add: detailsAvailableSpots_def spotsFields_def rejectedEvent_def getp_def readProp_def
          js_nc_def nullish_def)
  have n: "\<not> nullish (JObj spotsFields)" "\<not> nullish rejectedEvent"
    by (simp_all add: nullish_def rejectedEvent_def)
  have d: "readProp spaceA ''_id'' = JStr ''a1''"
    by (simp add: readProp_def spaceA_def)
  have t: "readProp (spaceA(''availableSpots'' \<mapsto> JNum (Fin 3))) ''title'' = JStr ''Alpha''"
    by (simp add: readProp_def spaceA_def)
  have r1: "detailsHandleParkingUpdate sampleHost (JObj spotsFields) detailState
       = Inr (detailState\<lparr> space := Some (spaceA(''availableSpots'' \<mapsto> JNum (Fin 3))) \<rparr>)"
    using detail_handler_changes_spots_only[OF s, of sampleHost "JObj spotsFields", THEN conjunct1]
    by (simp add: i a n d)
  have r2: "detailsHandleParkingUpdate sampleHost rejectedEvent detailState = Inr detailState"
    using detail_handler_changes_spots_only[OF s, of sampleHost rejectedEvent, THEN conjunct1]
    by (simp add: i a n d)
  show ?thesis using s t r1 r2 by blast
qed

section \<open>The approval filter\<close>

lemma approved_iff:
  "approved h s \<longleftrightarrow>
     toLowerCase (js_String h (js_or (getp s ''status'') (JStr []))) = ''submitted'' \<and> truthy (getp s ''isOnline'')"
  by (auto simp: approved_def Let_def)

lemma onlyApproved_non_array: "(\<And>xs. v \<noteq> JArr xs) \<Longrightarrow> onlyApproved h v = []"
  by (cases v) auto

lemma lower_submitted: "toLowerCase ''submitted'' = ''submitted''"
  by (simp add: toLowerCase_def lowerChar_def)

text \<open>
  Claim C6, as amended. For every input of the approval filter: a value that is not an array
  gives the empty collection; an array gives exactly its records whose lower-cased status is
  \<^verbatim>\<open>submitted\<close> and whose isOnline field is truthy, in the order of the input, and a
  record without the isOnline field is left out. Applying the filter twice is applying it
  once, and the empty collection gives the empty collection.
\<close>

theorem onlyApproved_characterised:
  "((\<forall>xs. v \<noteq> JArr xs) \<longrightarrow> onlyApproved h v = [])
   \<and> onlyApproved h (JArr xs) =
       filter (\<lambda>s. toLowerCase (js_String h (js_or (getp s ''status'') (JStr []))) = ''submitted''
                    \<and> truthy (getp s ''isOnline'')) xs
   \<and> subseq (onlyApproved h (JArr xs)) xs
   \<and> (\<forall>s \<in> set xs. getp s ''isOnline'' = JUndefined \<longrightarrow> s \<notin> set (onlyApproved h (JArr xs)))
   \<and> onlyApproved h (JArr (onlyApproved h v)) = onlyApproved h v
   \<and> onlyApproved h (JArr []) = []"
proof -
  have a: "approved h = (\<lambda>s. toLowerCase (js_String h (js_or (getp s ''status'') (JStr []))) = ''submitted''
                    \<and> truthy (getp s ''isOnline''))"
    by (rule ext) (simp add: approved_iff)
  have i: "onlyApproved h (JArr (onlyApproved h v)) = onlyApproved h v"
    by (cases v) simp_all
  have u: "\<forall>s \<in> set xs. getp s ''isOnline'' = JUndefined \<longrightarrow> s \<notin> set (onlyApproved h (JArr xs))"
    by (auto simp: approved_iff)
  show ?thesis
    using i u onlyApproved_non_array[of v h] by (simp add: a[symmetric])
qed

text \<open>
  The input \<^verbatim>\<open>null\<close> gives the empty collection; of four elements, a submitted online
  record, \<^verbatim>\<open>null\<close>, a record without isOnline and the record with \<^verbatim>\<open>isOnline: 1\<close>,
  the first and the last are kept, in that order.
\<close>

theorem onlyApproved_characterised_witness:
  "(\<forall>xs. JNull \<noteq> JArr xs) \<and> onlyApproved sampleHost JNull = []
   \<and> onlyApproved sampleHost (JArr [JObj spaceA, JNull, JObj (spaceB(''isOnline'' := None)), semiOnlineRecord])
       = [JObj spaceA, semiOnlineRecord]"
proof -
  have 1: "approved sampleHost (JObj spaceA)"
    by (simp add: approved_def spaceA_def getp_def readProp_def js_or_def lower_submitted)
  have 2: "\<not> approved sampleHost JNull"
    by (simp add: approved_def getp_def js_or_def toLowerCase_def)
  have 3: "\<not> approved sampleHost (JObj (spaceB(''isOnline'' := None)))"
    by (simp add: approved_def spaceB_def getp_def readProp_def)
  have 4: "approved sampleHost semiOnlineRecord"
    by (simp add: semiOnlineRecord_def approved_def getp_def readProp_def js_or_def lower_submitted)
  show ?thesis
    using onlyApproved_characterised[of JNull sampleHost "[JObj spaceA, JNull, JObj (spaceB(''isOnline'' := None)), semiOnlineRecord]"]
    by (simp add: 1 2 3 4)
qed

text \<open>
  The claim with \<^verbatim>\<open>isOnline === true\<close> fails: the filter applies \<^verbatim>\<open>Boolean\<close> to the
  field, so a submitted record with \<^verbatim>\<open>isOnline: 1\<close> is kept although its field is not
  \<^verbatim>\<open>true\<close>.
\<close>

theorem onlyApproved_characterised_counterexample:
  "getp semiOnlineRecord ''isOnline'' \<noteq> JBool True
   \<and> onlyApproved sampleHost (JArr [semiOnlineRecord]) = [semiOnlineRecord]"
  by (simp add: semiOnlineRecord_def approved_def getp_def readProp_def js_or_def lower_submitted)

section \<open>The price annotator\<close>

lemma clampDiscount_range: "0 \<le> clampDiscount d \<and> clampDiscount d \<le> 100"
  by (cases d) auto

lemma round2_mono_nonneg: "0 \<le> x \<Longrightarrow> x \<le> y \<Longrightarrow> round2 x \<le> round2 y"
proof -
  assume a: "0 \<le> x" "x \<le> y"
  then have "\<lfloor>x * 100 + 1 / 2\<rfloor> \<le> \<lfloor>y * 100 + 1 / 2\<rfloor>"
    by (intro floor_mono) simp
  then have "real_of_int \<lfloor>x * 100 + 1 / 2\<rfloor> / 100 \<le> real_of_int \<lfloor>y * 100 + 1 / 2\<rfloor> / 100"
    by (simp add: divide_right_mono)
  with a show ?thesis by (simp add: round2_def)
qed

lemma round2_big_pow: "round2 (10 ^ 21) = 10 ^ 21"
proof -
  have "(10::real) ^ 21 * 100 + 1 / 2 = of_int (10 ^ 23) + 1 / 2" by simp
  then have "\<lfloor>(10::real) ^ 21 * 100 + 1 / 2\<rfloor> = 10 ^ 23"
    by (simp add: floor_eq_iff)
  then show ?thesis by (simp add: round2_def)
qed

lemma round2_big: "round2 1000000000000000000000 = 1000000000000000000000"
  using round2_big_pow by simp

lemma factor_range:
  assumes "roundsToNearest h" "0 \<le> c" "c \<le> 100"
  shows "0 \<le> fl h (1 - fl h (c / 100)) \<and> fl h (1 - fl h (c / 100)) \<le> 1"
proof -
  have m: "\<And>x y. x \<le> y \<Longrightarrow> fl h x \<le> fl h y" and z: "fl h 0 = 0" and o: "fl h 1 = 1"
    using assms(1) by (auto simp: roundsToNearest_def mono_def)
  have "fl h 0 \<le> fl h (c / 100)" "fl h (c / 100) \<le> fl h 1"
    using assms(2,3) by (auto intro!: m)
  then have r: "0 \<le> fl h (c / 100)" "fl h (c / 100) \<le> 1" by (simp_all add: z o)
  have "fl h 0 \<le> fl h (1 - fl h (c / 100))" "fl h (1 - fl h (c / 100)) \<le> fl h 1"
    using r by (auto intro!: m)
  then show ?thesis by (simp add: z o)
qed

lemma discounted_le_base:
  assumes h: "roundsToNearest h" and b: "0 \<le> b" "fl h b = b" and f: "0 \<le> f" "f \<le> 1"
  shows "num_le (toFixed2 h (scale h (Fin b) f)) (toFixed2 h (Fin b))"
proof -
  have m: "\<And>x y. x \<le> y \<Longrightarrow> fl h x \<le> fl h y" and z: "fl h 0 = 0"
    using h by (auto simp: roundsToNearest_def mono_def)
  define x where "x = fl h (b * f)"
  have "b * f \<le> b" using b(1) f by (simp add: mult_left_le)
  then have xb: "x \<le> b" using m[of "b * f" b] b(2) by (simp add: x_def)
  have "0 \<le> b * f" using b(1) f(1) by simp
  then have x0: "0 \<le> x" using m[of 0 "b * f"] z by (simp add: x_def)
  have "num_le (toFixed2 h (Fin x)) (toFixed2 h (Fin b))"
  proof (cases "10 ^ 21 \<le> \<bar>x\<bar>")
    case True
    then have "10 ^ 21 \<le> \<bar>b\<bar>" using xb x0 by simp
    with True xb show ?thesis by simp
  next
    case False
    show ?thesis
    proof (cases "10 ^ 21 \<le> \<bar>b\<bar>")
      case True
      have "x \<le> 10 ^ 21" using False by simp
      then have "round2 x \<le> round2 (10 ^ 21)" using x0 by (intro round2_mono_nonneg)
      then have "round2 x \<le> b" using True b(1) by (simp add: round2_big)
      then have "fl h (round2 x) \<le> b" using m[of "round2 x" b] b(2) by simp
      with True False show ?thesis by simp
    next
      case F2: False
      have "fl h (round2 x) \<le> fl h (round2 b)"
        using round2_mono_nonneg[OF x0 xb] by (rule m)
      with False F2 show ?thesis by simp
    qed
  qed
  then show ?thesis by (simp add: x_def)
qed

text \<open>
  Claim C7, as amended. For every raw record: discountPercent is the record's discount
  clamped to the range from 0 to 100, a non-finite discount counting as 0, so it lies between
  0 and 100; basePrice is the base price rounded to two decimals; discountedPrice is
  \<open>base * (1 - clamped / 100)\<close> rounded to two decimals, computed from the base price before
  its rounding; hasDiscount is true exactly when the clamped discount is positive and
  discountedPrice is below the base price before its rounding; and when the base price is a
  finite double that is not negative, discountedPrice is at most basePrice. The annotator is
  a function of the record.
\<close>

theorem price_meta_characterised:
  "discountPercent (computePriceMeta h raw) = Fin (recordDiscount h raw)
   \<and> 0 \<le> recordDiscount h raw \<and> recordDiscount h raw \<le> 100
   \<and> basePrice (computePriceMeta h raw) = toFixed2 h (priceBase h raw)
   \<and> discountedPrice (computePriceMeta h raw)
       = toFixed2 h (scale h (priceBase h raw) (fl h (1 - fl h (recordDiscount h raw / 100))))
   \<and> (hasDiscount (computePriceMeta h raw)
        \<longleftrightarrow> 0 < recordDiscount h raw
            \<and> num_less (discountedPrice (computePriceMeta h raw)) (priceBase h raw))
   \<and> (roundsToNearest h \<and> priceBase h raw = Fin b \<and> 0 \<le> b \<and> fl h b = b
        \<longrightarrow> num_le (discountedPrice (computePriceMeta h raw)) (basePrice (computePriceMeta h raw)))"
proof -
  have r: "0 \<le> recordDiscount h raw \<and> recordDiscount h raw \<le> 100"
    by (simp add: recordDiscount_def clampDiscount_range)
  have le: "num_le (discountedPrice (computePriceMeta h raw)) (basePrice (computePriceMeta h raw))"
    if "roundsToNearest h" "priceBase h raw = Fin b" "0 \<le> b" "fl h b = b"
    using discounted_le_base[OF that(1,3,4)] factor_range[OF that(1), of "recordDiscount h raw"] r that(2)
    by (simp add: computePriceMeta_def Let_def recordDiscount_def)
  show ?thesis
    using r le by (simp add: computePriceMeta_def Let_def recordDiscount_def)
qed


lemma sampleHost_fl [simp]: "fl sampleHost x = x"
  by (simp add: sampleHost_def)

lemma sampleHost_rounds: "roundsToNearest sampleHost"
  by (simp add: roundsToNearest_def mono_def)

lemma priceBase_samples:
  "priceBase sampleHost discountedRecord = Fin 80"
  "priceBase sampleHost negativePriceRecord = Fin (- 8)"
  "priceBase sampleHost tinyPriceRecord = Fin (1 / 256)"
  by (simp_all add: priceBase_def Let_def discountedRecord_def negativePriceRecord_def tinyPriceRecord_def
        getp_def readProp_def js_nc_def nullish_def)

lemma recordDiscount_samples:
  "recordDiscount sampleHost discountedRecord = 25"
  "recordDiscount sampleHost negativePriceRecord = 50"
  "recordDiscount sampleHost tinyPriceRecord = 50"
  by (simp_all add: recordDiscount_def discountedRecord_def negativePriceRecord_def tinyPriceRecord_def
        getp_def readProp_def js_nc_def nullish_def)

lemma round2_samples:
  "round2 80 = 80" "round2 60 = 60" "round2 (- 8) = - 8" "round2 (- 4) = - 4"
  "round2 (1 / 256) = 0" "round2 (1 / 512) = 0"
  by (simp_all add: round2_def)

text \<open>
  At the record \<^verbatim>\<open>{pricePerHour: 80, discount: 25}\<close>: base price 80, discounted price
  60, a discount of 25 percent.
\<close>

theorem price_meta_characterised_witness:
  "roundsToNearest sampleHost \<and> priceBase sampleHost discountedRecord = Fin 80
   \<and> (0::real) \<le> 80 \<and> fl sampleHost 80 = 80
   \<and> discountPercent (computePriceMeta sampleHost discountedRecord) = Fin 25
   \<and> basePrice (computePriceMeta sampleHost discountedRecord) = Fin 80
   \<and> discountedPrice (computePriceMeta sampleHost discountedRecord) = Fin 60
   \<and> hasDiscount (computePriceMeta sampleHost discountedRecord)
   \<and> num_le (discountedPrice (computePriceMeta sampleHost discountedRecord))
         (basePrice (computePriceMeta sampleHost discountedRecord))"
proof -
  note t = price_meta_characterised[of sampleHost discountedRecord 80]
  have d: "discountedPrice (computePriceMeta sampleHost discountedRecord) = Fin 60"
    using t by (simp add: priceBase_samples recordDiscount_samples round2_samples)
  have b: "basePrice (computePriceMeta sampleHost discountedRecord) = Fin 80"
    using t by (simp add: priceBase_samples round2_samples)
  have p: "discountPercent (computePriceMeta sampleHost discountedRecord) = Fin 25"
    using t by (simp add: recordDiscount_samples)
  have hd: "hasDiscount (computePriceMeta sampleHost discountedRecord)"
    using t by (simp add: d priceBase_samples recordDiscount_samples)
  have le: "num_le (discountedPrice (computePriceMeta sampleHost discountedRecord))
         (basePrice (computePriceMeta sampleHost discountedRecord))"
  proof -
    from t have "roundsToNearest sampleHost \<and> priceBase sampleHost discountedRecord = Fin 80
        \<and> (0::real) \<le> 80 \<and> fl sampleHost 80 = 80
        \<longrightarrow> num_le (discountedPrice (computePriceMeta sampleHost discountedRecord))
              (basePrice (computePriceMeta sampleHost discountedRecord))"
      by blast
    then show ?thesis
      using sampleHost_rounds priceBase_samples(1) by simp
  qed
  show ?thesis
    using sampleHost_rounds d b p hd le by (simp add: priceBase_samples)
qed

text \<open>
  The claim as stated fails twice, at inputs where every intermediate value is a double and
  the arithmetic is exact. The record \<^verbatim>\<open>{price: -8, discount: 50}\<close> has the discounted
  price \<open>-4\<close> above the base price \<open>-8\<close>. The record \<^verbatim>\<open>{price: 1/256, discount: 50}\<close>
  has both prices rounded to 0 and hasDiscount true, because the test compares with the base
  price before its rounding.
\<close>

theorem price_meta_characterised_counterexample:
  "basePrice (computePriceMeta sampleHost negativePriceRecord) = Fin (- 8)
   \<and> discountedPrice (computePriceMeta sampleHost negativePriceRecord) = Fin (- 4)
   \<and> \<not> num_le (Fin (- 4)) (Fin (- 8))
   \<and> discountPercent (computePriceMeta sampleHost tinyPriceRecord) = Fin 50
   \<and> basePrice (computePriceMeta sampleHost tinyPriceRecord) = Fin 0
   \<and> discountedPrice (computePriceMeta sampleHost tinyPriceRecord) = Fin 0
   \<and> hasDiscount (computePriceMeta sampleHost tinyPriceRecord)
   \<and> \<not> num_less (Fin 0) (Fin 0)"
proof -
  have n: "computePriceMeta sampleHost negativePriceRecord
             = \<lparr> basePrice = Fin (- 8), discountedPrice = Fin (- 4), discountPercent = Fin 50,
                 hasDiscount = False \<rparr>"
    using recordDiscount_samples(2)
    by (simp add: computePriceMeta_def Let_def priceBase_samples recordDiscount_def round2_samples)
  have t: "computePriceMeta sampleHost tinyPriceRecord
             = \<lparr> basePrice = Fin 0, discountedPrice = Fin 0, discountPercent = Fin 50,
                 hasDiscount = True \<rparr>"
    using recordDiscount_samples(3)
    by (simp add: computePriceMeta_def Let_def priceBase_samples recordDiscount_def round2_samples)
  show ?thesis by (simp add: n t)
qed

section \<open>Validation of the time window\<close>

text \<open>
  What the validation returns on two strings that parse as dates: the three checks in their
  order, each with its own message.
\<close>

lemma validate_valid:
  assumes "DateParse h start = Some s" "DateParse h end' = Some e"
  shows "validateTimeSelection h now start end' =
           (if s < now then (False, [(ToastError, ''Start time cannot be in the past'')])
            else if e \<le> s then (False, [(ToastError, ''End time must be after start time'')])
            else if e - s < 30 * 60 * 1000 then (False, [(ToastError, ''Minimum booking duration is 30 minutes'')])
            else (True, []))"
proof -
  have "(real_of_int (e - s) / (1000 * 60) < 30) = (e - s < 30 * 60 * 1000)"
    by (simp add: field_simps) linarith
  then show ?thesis
    using assms by (simp add: validateTimeSelection_def Let_def dateLess_def dateLe_def diffMinutes_def)
qed

text \<open>A rejected selection ends the click handler at its first line.\<close>

lemma apply_rejected:
  assumes "startTime st = Some start" "endTime st = Some end'" "start \<noteq> []" "end' \<noteq> []"
      and "\<not> fst (validateTimeSelection h now start end')"
  shows "applyTimeFilter h svc now st = st\<lparr> toasts := toasts st @ snd (validateTimeSelection h now start end') \<rparr>"
  using assms by (simp add: applyTimeFilter_def timeSelectionChecked_def Let_def)

text \<open>
  Claim C8. For every start and end that parse as dates, the validation checks in a fixed
  order and the first failure wins, each with its own message: a start before now gives the
  past-start message; otherwise an end not after the start gives the end-after-start message;
  otherwise a duration under 30 minutes gives the minimum-duration message; otherwise the
  selection is accepted. In particular a start one hour before now with an end one hour after
  now is rejected as a past start, and a start that is not in the past with an end ten
  minutes later is rejected for its duration. When the selection held by the screen is
  rejected, applying the time filter sends no request, leaves both collections as they are
  and shows the message, followed only by what the renders of the step show.
\<close>

theorem time_validation_order:
  assumes "DateParse h start = Some s" "DateParse h end' = Some e"
  shows "validateTimeSelection h now start end' =
           (if s < now then (False, [(ToastError, ''Start time cannot be in the past'')])
            else if e \<le> s then (False, [(ToastError, ''End time must be after start time'')])
            else if e - s < 30 * 60 * 1000 then (False, [(ToastError, ''Minimum booking duration is 30 minutes'')])
            else (True, []))
       \<and> (s = now - 60 * 60 * 1000 \<and> e = now + 60 * 60 * 1000 \<longrightarrow>
            validateTimeSelection h now start end' = (False, [(ToastError, ''Start time cannot be in the past'')]))
       \<and> (now \<le> s \<and> e = s + 10 * 60 * 1000 \<longrightarrow>
            validateTimeSelection h now start end' = (False, [(ToastError, ''Minimum booking duration is 30 minutes'')]))
       \<and> (startTime st = Some start \<and> endTime st = Some end' \<and> start \<noteq> [] \<and> end' \<noteq> []
            \<and> \<not> fst (validateTimeSelection h now start end') \<longrightarrow>
            requests (dispatch h (ApplyTimeFilter svc now) renders st) = requests st
            \<and> parkingSpaces (dispatch h (ApplyTimeFilter svc now) renders st) = parkingSpaces st
            \<and> filteredSpaces (dispatch h (ApplyTimeFilter svc now) renders st) = filteredSpaces st
            \<and> toasts (dispatch h (ApplyTimeFilter svc now) renders st)
                = toasts st @ snd (validateTimeSelection h now start end') @ rendersToasts h renders st)"
proof -
  have v: "validateTimeSelection h now start end' =
           (if s < now then (False, [(ToastError, ''Start time cannot be in the past'')])
            else if e \<le> s then (False, [(ToastError, ''End time must be after start time'')])
            else if e - s < 30 * 60 * 1000 then (False, [(ToastError, ''Minimum booking duration is 30 minutes'')])
            else (True, []))"
    using assms by (rule validate_valid)
  have a: "requests (dispatch h (ApplyTimeFilter svc now) renders st) = requests st
            \<and> parkingSpaces (dispatch h (ApplyTimeFilter svc now) renders st) = parkingSpaces st
            \<and> filteredSpaces (dispatch h (ApplyTimeFilter svc now) renders st) = filteredSpaces st
            \<and> toasts (dispatch h (ApplyTimeFilter svc now) renders st)
                = toasts st @ snd (validateTimeSelection h now start end') @ rendersToasts h renders st"
    if "startTime st = Some start" "endTime st = Some end'" "start \<noteq> []" "end' \<noteq> []"
       "\<not> fst (validateTimeSelection h now start end')"
  proof -
    let ?st' = "st\<lparr> toasts := toasts st @ snd (validateTimeSelection h now start end') \<rparr>"
    have r: "rendersToasts h renders ?st' = rendersToasts h renders st"
      by (rule rendersToasts_cong) simp_all
    show ?thesis
      using apply_rejected[OF that, of svc] r
      by (simp add: dispatch_def runEffects_def fold_render_toasts)
  qed
  have p1: "validateTimeSelection h now start end' = (False, [(ToastError, ''Start time cannot be in the past'')])"
    if "s = now - 60 * 60 * 1000" using that by (simp add: v)
  have p2: "validateTimeSelection h now start end' = (False, [(ToastError, ''Minimum booking duration is 30 minutes'')])"
    if "now \<le> s" "e = s + 10 * 60 * 1000" using that by (simp add: v)
  show ?thesis using v a p1 p2 by blast
qed


text \<open>
  With the start at 10:00: at 11:00 an end at 12:00 is rejected as a past start; earlier that
  day an end at 10:10 is rejected for its duration, and the screen holding that selection
  sends no request when the filter is applied.
\<close>

theorem time_validation_order_witness:
  "DateParse sampleHost ''2030-01-01T10:00'' = Some 1893492000000
   \<and> DateParse sampleHost ''2030-01-01T10:10'' = Some 1893492600000
   \<and> DateParse sampleHost ''2030-01-01T12:00'' = Some 1893499200000
   \<and> validateTimeSelection sampleHost 1893495600000 ''2030-01-01T10:00'' ''2030-01-01T12:00''
       = (False, [(ToastError, ''Start time cannot be in the past'')])
   \<and> validateTimeSelection sampleHost 1893400000000 ''2030-01-01T10:00'' ''2030-01-01T10:10''
       = (False, [(ToastError, ''Minimum booking duration is 30 minutes'')])
   \<and> requests (dispatch sampleHost (ApplyTimeFilter sampleService 1893400000000) [] shortWindowState) = []
   \<and> parkingSpaces (dispatch sampleHost (ApplyTimeFilter sampleService 1893400000000) [] shortWindowState)
       = [spaceA, spaceB]
   \<and> toasts (dispatch sampleHost (ApplyTimeFilter sampleService 1893400000000) [] shortWindowState)
       = [(ToastError, ''Minimum booking duration is 30 minutes'')]"
proof -
  have d: "DateParse sampleHost ''2030-01-01T10:00'' = Some 1893492000000"
          "DateParse sampleHost ''2030-01-01T10:10'' = Some 1893492600000"
          "DateParse sampleHost ''2030-01-01T12:00'' = Some 1893499200000"
    by (simp_all add: sampleHost_def)
  note past = time_validation_order[OF d(1) d(3), of 1893495600000 shortWindowState sampleService "[]"]
  note short = time_validation_order[OF d(1) d(2), of 1893400000000 shortWindowState sampleService "[]"]
  have v1: "validateTimeSelection sampleHost 1893495600000 ''2030-01-01T10:00'' ''2030-01-01T12:00''
       = (False, [(ToastError, ''Start time cannot be in the past'')])"
    using past by simp
  have v2: "validateTimeSelection sampleHost 1893400000000 ''2030-01-01T10:00'' ''2030-01-01T10:10''
       = (False, [(ToastError, ''Minimum booking duration is 30 minutes'')])"
    using short by simp
  have s: "startTime shortWindowState = Some ''2030-01-01T10:00''"
          "endTime shortWindowState = Some ''2030-01-01T10:10''"
          "requests shortWindowState = []" "toasts shortWindowState = []"
          "parkingSpaces shortWindowState = [spaceA, spaceB]"
    by (simp_all add: shortWindowState_def shownState_def initialState_def)
  have a: "requests (dispatch sampleHost (ApplyTimeFilter sampleService 1893400000000) [] shortWindowState) = []
     \<and> parkingSpaces (dispatch sampleHost (ApplyTimeFilter sampleService 1893400000000) [] shortWindowState)
         = [spaceA, spaceB]
     \<and> toasts (dispatch sampleHost (ApplyTimeFilter sampleService 1893400000000) [] shortWindowState)
         = [(ToastError, ''Minimum booking duration is 30 minutes'')]"
    using short[THEN conjunct2, THEN conjunct2, THEN conjunct2] by (simp add: s v2 rendersToasts_def)
  show ?thesis using d v1 v2 a by blast
qed

section \<open>The filtered collection mirrors the full collection\<close>

text \<open>
  A handler other than the socket handler never writes the filtered collection, and changes
  the full collection only by giving the setter a fresh array.
\<close>

lemma load_frame:
  "filteredSpaces (loadDefaultParkingMarkers h svc lat lng st) = filteredSpaces st
   \<and> (spacesRef (loadDefaultParkingMarkers h svc lat lng st) = spacesRef st
        \<longrightarrow> parkingSpaces (loadDefaultParkingMarkers h svc lat lng st) = parkingSpaces st)"
  by (simp add: loadDefaultParkingMarkers_def Let_def
        split: option.splits outcome.splits jsval.splits)

lemma handler_frame:
  assumes "\<And>data. a \<noteq> SocketEvent data"
  shows "filteredSpaces (handle h a st) = filteredSpaces st
       \<and> (spacesRef (handle h a st) = spacesRef st \<longrightarrow> parkingSpaces (handle h a st) = parkingSpaces st)"
proof (cases a)
  case (SocketEvent data) with assms show ?thesis by blast
next
  case (LoadAtLocation svc lat lng)
  then show ?thesis
    using load_frame[of h svc lat lng "st\<lparr> currentLocation := Some (lat, lng) \<rparr>"]
    by (simp add: loadAtLocation_def)
next
  case (LocationError svc)
  then show ?thesis
    using load_frame[of h svc "Fin (286139 / 10000)" "Fin (772090 / 10000)"
            "(toast ToastError ''Could not get your location. Please enable location services.'' st)
               \<lparr> currentLocation := Some (Fin (286139 / 10000), Fin (772090 / 10000)) \<rparr>"]
    by (simp add: locationError_def loadAtLocation_def)
next
  case (GoToCurrentLocation svc)
  then show ?thesis
    using load_frame[of h svc _ _ st]
    by (auto simp: handleGoToCurrentLocation_def split: option.splits)
next
  case (SearchByCurrentLocation svc)
  then show ?thesis
    using load_frame[of h svc _ _ "toast ToastSuccess ''Showing parking spaces around you'' st"]
    by (auto simp: handleSearchByCurrentLocation_def split: option.splits)
next
  case (ClearSearchBox svc)
  then show ?thesis
    using load_frame[of h svc _ _ st]
    by (auto simp: clearSearchBox_def split: option.splits)
next
  case (LocationSelect svc lat lng address)
  then show ?thesis
    by (simp add: handleLocationSelect_def Let_def split: outcome.splits sum.splits)
next
  case (ApplyTimeFilter svc now)
  then show ?thesis
    by (simp add: applyTimeFilter_def Let_def split: outcome.splits sum.splits option.splits prod.splits)
next
  case (ClearTimeFilter svc)
  then show ?thesis
    by (simp add: clearTimeFilter_def Let_def split: outcome.splits sum.splits option.splits)
next
  case (ChangeStartTime v)
  then show ?thesis by (simp add: changeStartTime_def Let_def split: option.splits)
next
  case (ChangeEndTime v)
  then show ?thesis by (simp add: changeEndTime_def)
next
  case (MarkerClick sp)
  then show ?thesis by (simp add: handleMarkerClick_def)
next
  case (MarkerHover sp)
  then show ?thesis by (simp add: handleMarkerHover_def)
next
  case ClosePopup
  then show ?thesis by (simp add: handleClosePopup_def)
next
  case (FilterToggle x)
  then show ?thesis by (simp add: handleFilterToggle_def)
next
  case (PriceRangeChange lo hi)
  then show ?thesis by (simp add: handlePriceRangeChange_def)
next
  case ClearAllFilters
  then show ?thesis by (simp add: clearAllFilters_def)
next
  case OpenTimeFilterModal
  then show ?thesis by (simp add: openTimeFilterModal_def)
next
  case CloseTimeFilterModal
  then show ?thesis by (simp add: closeTimeFilterModal_def)
qed

lemma socket_keeps_mirror:
  assumes "filteredSpaces st = parkingSpaces st"
  shows "filteredSpaces (handleParkingUpdate h data st) = parkingSpaces (handleParkingUpdate h data st)"
  using assms by (simp add: handleParkingUpdate_def)

lemma dispatch_keeps_mirror:
  assumes "filteredSpaces st = parkingSpaces st"
  shows "filteredSpaces (dispatch h a renders st) = parkingSpaces (dispatch h a renders st)"
proof (cases "\<exists>data. a = SocketEvent data")
  case True
  then obtain data where "a = SocketEvent data" by blast
  then show ?thesis
    using socket_keeps_mirror[OF assms, of h data] by (simp add: dispatch_def runEffects_fields)
next
  case False
  then have "\<And>data. a \<noteq> SocketEvent data" by blast
  from handler_frame[OF this, of h st] assms show ?thesis
    by (simp add: dispatch_def runEffects_fields)
qed

lemma run_keeps_mirror:
  "filteredSpaces st = parkingSpaces st \<Longrightarrow>
     filteredSpaces (run h steps st) = parkingSpaces (run h steps st)"
  by (induction steps arbitrary: st) (auto simp: dispatch_keeps_mirror)

text \<open>
  Claim C9. After every sequence of operations from the initial screen (loads, search
  refetches, applying and clearing the time filter, realtime events, and every other
  handler), whatever renders follow each of them, the filtered collection equals the full
  collection; every single operation keeps them equal; and the amenity and price controls
  leave the filtered collection as it is.
\<close>

theorem filtered_mirrors_full:
  "filteredSpaces (run h steps initialState) = parkingSpaces (run h steps initialState)
   \<and> (filteredSpaces st = parkingSpaces st \<longrightarrow>
        filteredSpaces (dispatch h a renders st) = parkingSpaces (dispatch h a renders st))
   \<and> filteredSpaces (dispatch h (FilterToggle am) renders st) = filteredSpaces st
   \<and> filteredSpaces (dispatch h (PriceRangeChange lo hi) renders st) = filteredSpaces st
   \<and> filteredSpaces (dispatch h ClearAllFilters renders st) = filteredSpaces st"
proof -
  have i: "filteredSpaces initialState = parkingSpaces initialState"
    by (simp add: initialState_def)
  have f: "filteredSpaces (dispatch h (FilterToggle am) renders st) = filteredSpaces st"
          "filteredSpaces (dispatch h (PriceRangeChange lo hi) renders st) = filteredSpaces st"
          "filteredSpaces (dispatch h ClearAllFilters renders st) = filteredSpaces st"
    by (simp_all add: dispatch_def runEffects_fields handleFilterToggle_def
          handlePriceRangeChange_def clearAllFilters_def)
  show ?thesis
    using run_keeps_mirror[OF i] dispatch_keeps_mirror f by blast
qed


lemma rejected_on_shown:
  "updateSpaces sampleHost False rejectedEvent [spaceA, spaceB] = Replaced [spaceB]"
proof -
  have e: "eventParkingId rejectedEvent = JStr ''a1''"
    by (simp add: eventParkingId_def rejectedEvent_def getp_def readProp_def js_or_def)
  have s: "toLowerCase (js_String sampleHost (js_or (getp rejectedEvent ''status'') (JStr []))) = ''rejected''"
    by (simp add: rejectedEvent_def getp_def readProp_def js_or_def toLowerCase_def lowerChar_def)
  show ?thesis
    by (simp add: updateSpaces_def Let_def e s sample_sid splice1_def)
qed

text \<open>
  On the screen showing both spaces the collections are equal, and they are still equal,
  both holding the second space only, after the event \<^verbatim>\<open>{parkingId: "a1", status: "Rejected"}\<close>.
\<close>

theorem filtered_mirrors_full_witness:
  "filteredSpaces shownState = parkingSpaces shownState
   \<and> parkingSpaces (dispatch sampleHost (SocketEvent rejectedEvent) [0] shownState) = [spaceB]
   \<and> filteredSpaces (dispatch sampleHost (SocketEvent rejectedEvent) [0] shownState) = [spaceB]"
proof -
  have i: "filteredSpaces shownState = parkingSpaces shownState"
    by (simp add: shownState_def)
  have w: "\<not> windowActive shownState"
    by (simp add: windowActive_def shownState_def initialState_def strTruthy_def)
  have p: "parkingSpaces (dispatch sampleHost (SocketEvent rejectedEvent) [0] shownState) = [spaceB]"
    using rejected_on_shown w
    by (simp add: dispatch_def runEffects_fields handleParkingUpdate_def rejectedEvent_def shownState_def)
  have "filteredSpaces (dispatch sampleHost (SocketEvent rejectedEvent) [0] shownState)
          = parkingSpaces (dispatch sampleHost (SocketEvent rejectedEvent) [0] shownState)"
    using filtered_mirrors_full[of sampleHost "[]" shownState "SocketEvent rejectedEvent" "[0]"] i by blast
  with i p show ?thesis by simp
qed

section \<open>Failed fetches\<close>

lemma select_failure:
  assumes "respond svc (GetNearbySpaces lat lng (startTime st) (endTime st) (Some True)) = Throws"
  shows "handleLocationSelect h svc lat lng address st =
           (toast ToastError ''Failed to fetch parking spaces for the selected location.''
              (logRequest (GetNearbySpaces lat lng (startTime st) (endTime st) (Some True))
                 (st\<lparr> loading := True \<rparr>)))\<lparr> loading := False \<rparr>"
  using assms by (simp add: handleLocationSelect_def Let_def)

lemma apply_failure:
  assumes "fst (timeSelectionChecked h now st)" "respond svc (timeFilterRequest st) = Throws"
  shows "applyTimeFilter h svc now st =
           (toast ToastError ''Unable to apply time filter.''
              (logRequest (timeFilterRequest st) (st\<lparr> loading := True \<rparr>)))\<lparr> loading := False \<rparr>"
  using assms by (simp add: applyTimeFilter_def Let_def)

text \<open>
  The default load ends in its \<^verbatim>\<open>catch\<close> when the proximity request throws after the
  listing gave nothing to show: the listing function is absent, or it throws, or it returns
  something other than a non-empty array.
\<close>

lemma load_failure:
  assumes "hasGetAllSpaces svc \<longrightarrow>
             (\<forall>all. respond svc (GetAllSpaces (startTime st) (endTime st) (Some True)) = Returns (JArr all)
                \<longrightarrow> all = [])"
      and "respond svc (GetNearbySpaces lat lng (startTime st) (endTime st) (Some True)) = Throws"
  shows "parkingSpaces (loadDefaultParkingMarkers h svc lat lng st) = []
       \<and> filteredSpaces (loadDefaultParkingMarkers h svc lat lng st) = filteredSpaces st
       \<and> spacesRef (loadDefaultParkingMarkers h svc lat lng st) = Suc (spacesRef st)
       \<and> toasts (loadDefaultParkingMarkers h svc lat lng st)
           = toasts st @ [(ToastError, ''Failed to load parking markers.'')]
       \<and> loading (loadDefaultParkingMarkers h svc lat lng st) = False
       \<and> showTimeFilterModal (loadDefaultParkingMarkers h svc lat lng st) = showTimeFilterModal st
       \<and> startTime (loadDefaultParkingMarkers h svc lat lng st) = startTime st
       \<and> endTime (loadDefaultParkingMarkers h svc lat lng st) = endTime st"
  using assms
  by (auto simp: loadDefaultParkingMarkers_def Let_def toast_def logRequest_def setParkingSpaces_def
           split: outcome.splits jsval.splits)

text \<open>
  What a step shows and holds when its handler ended in the \<^verbatim>\<open>catch\<close> of the default
  load: both collections empty, and the toasts of the handler followed by those of the
  renders.
\<close>

lemma emptied_step:
  assumes "parkingSpaces st' = []" "spacesRef st' \<noteq> spacesRef st" "toasts st' = ts"
      and "loading st' = False" "showTimeFilterModal st' = showTimeFilterModal st"
      and "startTime st' = startTime st" "endTime st' = endTime st"
  shows "parkingSpaces (fold (render h) renders (runEffects st st')) = []
       \<and> filteredSpaces (fold (render h) renders (runEffects st st')) = []
       \<and> toasts (fold (render h) renders (runEffects st st'))
           = ts @ rendersToasts h renders (st\<lparr> loading := False \<rparr>)"
proof -
  have "rendersToasts h renders (runEffects st st') = rendersToasts h renders (st\<lparr> loading := False \<rparr>)"
    using assms by (intro rendersToasts_cong) (simp_all add: runEffects_def syncFilteredSpaces_def)
  then show ?thesis
    using assms by (simp add: fold_render_toasts runEffects_fields) (simp add: runEffects_def syncFilteredSpaces_def)
qed

text \<open>
  Claim C5, as amended. A failed fetch after choosing a search result, or when applying the
  time filter, shows an error notification and leaves the full and the filtered collection
  as they were. A failed load of the default markers, which is the first load (at the
  reported or, after a location error, the default position) and also every reload by the
  current-location, near-me and search-clear buttons, shows an error notification and empties
  both collections. The load fails when the proximity request throws after the listing gave
  nothing to show. In each case the toasts are those of the handler followed by what the
  renders of the step show.
\<close>

theorem fetch_failure_effects:
  "(respond svc (GetNearbySpaces lat lng (startTime st) (endTime st) (Some True)) = Throws \<longrightarrow>
      parkingSpaces (dispatch h (LocationSelect svc lat lng address) renders st) = parkingSpaces st
      \<and> filteredSpaces (dispatch h (LocationSelect svc lat lng address) renders st) = filteredSpaces st
      \<and> toasts (dispatch h (LocationSelect svc lat lng address) renders st)
          = toasts st @ [(ToastError, ''Failed to fetch parking spaces for the selected location.'')]
              @ rendersToasts h renders (st\<lparr> loading := False \<rparr>))
   \<and> (fst (timeSelectionChecked h now st) \<and> respond svc (timeFilterRequest st) = Throws \<longrightarrow>
      parkingSpaces (dispatch h (ApplyTimeFilter svc now) renders st) = parkingSpaces st
      \<and> filteredSpaces (dispatch h (ApplyTimeFilter svc now) renders st) = filteredSpaces st
      \<and> toasts (dispatch h (ApplyTimeFilter svc now) renders st)
          = toasts st @ [(ToastError, ''Unable to apply time filter.'')]
              @ rendersToasts h renders (st\<lparr> loading := False \<rparr>))
   \<and> ((hasGetAllSpaces svc \<longrightarrow>
          (\<forall>all. respond svc (GetAllSpaces (startTime st) (endTime st) (Some True)) = Returns (JArr all)
             \<longrightarrow> all = []))
       \<and> respond svc (GetNearbySpaces lat lng (startTime st) (endTime st) (Some True)) = Throws \<longrightarrow>
      (parkingSpaces (dispatch h (LoadAtLocation svc lat lng) renders st) = []
       \<and> filteredSpaces (dispatch h (LoadAtLocation svc lat lng) renders st) = []
       \<and> toasts (dispatch h (LoadAtLocation svc lat lng) renders st)
           = toasts st @ [(ToastError, ''Failed to load parking markers.'')]
               @ rendersToasts h renders (st\<lparr> loading := False \<rparr>))
      \<and> (currentLocation st = Some (lat, lng) \<longrightarrow>
           parkingSpaces (dispatch h (GoToCurrentLocation svc) renders st) = []
           \<and> filteredSpaces (dispatch h (GoToCurrentLocation svc) renders st) = []
           \<and> toasts (dispatch h (GoToCurrentLocation svc) renders st)
               = toasts st @ [(ToastError, ''Failed to load parking markers.'')]
                   @ rendersToasts h renders (st\<lparr> loading := False \<rparr>)
           \<and> parkingSpaces (dispatch h (SearchByCurrentLocation svc) renders st) = []
           \<and> filteredSpaces (dispatch h (SearchByCurrentLocation svc) renders st) = []
           \<and> toasts (dispatch h (SearchByCurrentLocation svc) renders st)
               = toasts st @ [(ToastSuccess, ''Showing parking spaces around you''),
                              (ToastError, ''Failed to load parking markers.'')]
                   @ rendersToasts h renders (st\<lparr> loading := False \<rparr>)
           \<and> parkingSpaces (dispatch h (ClearSearchBox svc) renders st) = []
           \<and> filteredSpaces (dispatch h (ClearSearchBox svc) renders st) = []
           \<and> toasts (dispatch h (ClearSearchBox svc) renders st)
               = toasts st @ [(ToastError, ''Failed to load parking markers.'')]
                   @ rendersToasts h renders (st\<lparr> loading := False \<rparr>)))
   \<and> ((hasGetAllSpaces svc \<longrightarrow>
          (\<forall>all. respond svc (GetAllSpaces (startTime st) (endTime st) (Some True)) = Returns (JArr all)
             \<longrightarrow> all = []))
       \<and> respond svc (GetNearbySpaces (Fin (286139 / 10000)) (Fin (772090 / 10000))
                         (startTime st) (endTime st) (Some True)) = Throws \<longrightarrow>
      parkingSpaces (dispatch h (LocationError svc) renders st) = []
      \<and> filteredSpaces (dispatch h (LocationError svc) renders st) = []
      \<and> toasts (dispatch h (LocationError svc) renders st)
          = toasts st @ [(ToastError, ''Could not get your location. Please enable location services.''),
                         (ToastError, ''Failed to load parking markers.'')]
              @ rendersToasts h renders (st\<lparr> loading := False \<rparr>))"
proof -
  let ?R = "rendersToasts h renders (st\<lparr> loading := False \<rparr>)"
  let ?listing = "\<lambda>st. hasGetAllSpaces svc \<longrightarrow>
          (\<forall>all. respond svc (GetAllSpaces (startTime st) (endTime st) (Some True)) = Returns (JArr all)
             \<longrightarrow> all = [])"
  have kept: "parkingSpaces (fold (render h) renders (runEffects st st')) = parkingSpaces st
       \<and> filteredSpaces (fold (render h) renders (runEffects st st')) = filteredSpaces st
       \<and> toasts (fold (render h) renders (runEffects st st')) = toasts st @ [t] @ ?R"
    if "st' = (toast (fst t) (snd t) (logRequest r (st\<lparr> loading := True \<rparr>)))\<lparr> loading := False \<rparr>"
    for st' t r
  proof -
    have "rendersToasts h renders (runEffects st st') = ?R"
      by (rule rendersToasts_cong) (simp_all add: that runEffects_def toast_def logRequest_def)
    then show ?thesis
      by (simp add: fold_render_toasts) (simp add: that runEffects_def)
  qed
  have a: "parkingSpaces (dispatch h (LocationSelect svc lat lng address) renders st) = parkingSpaces st
      \<and> filteredSpaces (dispatch h (LocationSelect svc lat lng address) renders st) = filteredSpaces st
      \<and> toasts (dispatch h (LocationSelect svc lat lng address) renders st)
          = toasts st @ [(ToastError, ''Failed to fetch parking spaces for the selected location.'')] @ ?R"
    if "respond svc (GetNearbySpaces lat lng (startTime st) (endTime st) (Some True)) = Throws"
    using kept[of _ "(ToastError, ''Failed to fetch parking spaces for the selected location.'')"]
    by (simp add: dispatch_def select_failure[OF that])
  have b: "parkingSpaces (dispatch h (ApplyTimeFilter svc now) renders st) = parkingSpaces st
      \<and> filteredSpaces (dispatch h (ApplyTimeFilter svc now) renders st) = filteredSpaces st
      \<and> toasts (dispatch h (ApplyTimeFilter svc now) renders st)
          = toasts st @ [(ToastError, ''Unable to apply time filter.'')] @ ?R"
    if "fst (timeSelectionChecked h now st)" "respond svc (timeFilterRequest st) = Throws"
    using kept[of _ "(ToastError, ''Unable to apply time filter.'')"]
    by (simp add: dispatch_def apply_failure[OF that])
  have c: "parkingSpaces (dispatch h (LoadAtLocation svc lat lng) renders st) = []
       \<and> filteredSpaces (dispatch h (LoadAtLocation svc lat lng) renders st) = []
       \<and> toasts (dispatch h (LoadAtLocation svc lat lng) renders st)
           = toasts st @ [(ToastError, ''Failed to load parking markers.'')] @ ?R"
    if "?listing st"
       "respond svc (GetNearbySpaces lat lng (startTime st) (endTime st) (Some True)) = Throws"
    using load_failure[of svc "st\<lparr> currentLocation := Some (lat, lng) \<rparr>" lat lng h] that
          emptied_step[of "loadAtLocation h svc lat lng st" st
                          "toasts st @ [(ToastError, ''Failed to load parking markers.'')]" h renders]
    by (simp add: dispatch_def loadAtLocation_def)
  have d: "parkingSpaces (dispatch h (GoToCurrentLocation svc) renders st) = []
           \<and> filteredSpaces (dispatch h (GoToCurrentLocation svc) renders st) = []
           \<and> toasts (dispatch h (GoToCurrentLocation svc) renders st)
               = toasts st @ [(ToastError, ''Failed to load parking markers.'')] @ ?R"
    if "?listing st"
       "respond svc (GetNearbySpaces lat lng (startTime st) (endTime st) (Some True)) = Throws"
       "currentLocation st = Some (lat, lng)"
    using load_failure[of svc st lat lng h] that
          emptied_step[of "handleGoToCurrentLocation h svc st" st
                          "toasts st @ [(ToastError, ''Failed to load parking markers.'')]" h renders]
    by (simp add: dispatch_def handleGoToCurrentLocation_def)
  have e: "parkingSpaces (dispatch h (ClearSearchBox svc) renders st) = []
           \<and> filteredSpaces (dispatch h (ClearSearchBox svc) renders st) = []
           \<and> toasts (dispatch h (ClearSearchBox svc) renders st)
               = toasts st @ [(ToastError, ''Failed to load parking markers.'')] @ ?R"
    if "?listing st"
       "respond svc (GetNearbySpaces lat lng (startTime st) (endTime st) (Some True)) = Throws"
       "currentLocation st = Some (lat, lng)"
    using load_failure[of svc st lat lng h] that
          emptied_step[of "clearSearchBox h svc st" st
                          "toasts st @ [(ToastError, ''Failed to load parking markers.'')]" h renders]
    by (simp add: dispatch_def clearSearchBox_def)
  have f: "parkingSpaces (dispatch h (SearchByCurrentLocation svc) renders st) = []
           \<and> filteredSpaces (dispatch h (SearchByCurrentLocation svc) renders st) = []
           \<and> toasts (dispatch h (SearchByCurrentLocation svc) renders st)
               = toasts st @ [(ToastSuccess, ''Showing parking spaces around you''),
                              (ToastError, ''Failed to load parking markers.'')] @ ?R"
    if "?listing st"
       "respond svc (GetNearbySpaces lat lng (startTime st) (endTime st) (Some True)) = Throws"
       "currentLocation st = Some (lat, lng)"
    using load_failure[of svc "toast ToastSuccess ''Showing parking spaces around you'' st" lat lng h] that
          emptied_step[of "handleSearchByCurrentLocation h svc st" st
                          "toasts st @ [(ToastSuccess, ''Showing parking spaces around you''),
                                        (ToastError, ''Failed to load parking markers.'')]" h renders]
    by (simp add: dispatch_def handleSearchByCurrentLocation_def)
  have g: "parkingSpaces (dispatch h (LocationError svc) renders st) = []
      \<and> filteredSpaces (dispatch h (LocationError svc) renders st) = []
      \<and> toasts (dispatch h (LocationError svc) renders st)
          = toasts st @ [(ToastError, ''Could not get your location. Please enable location services.''),
                         (ToastError, ''Failed to load parking markers.'')] @ ?R"
    if "?listing st"
       "respond svc (GetNearbySpaces (Fin (286139 / 10000)) (Fin (772090 / 10000))
                         (startTime st) (endTime st) (Some True)) = Throws"
    using load_failure[of svc
             "(toast ToastError ''Could not get your location. Please enable location services.'' st)
                \<lparr> currentLocation := Some (Fin (286139 / 10000), Fin (772090 / 10000)) \<rparr>"
             "Fin (286139 / 10000)" "Fin (772090 / 10000)" h] that
          emptied_step[of "locationError h svc st" st
                          "toasts st @ [(ToastError, ''Could not get your location. Please enable location services.''),
                                        (ToastError, ''Failed to load parking markers.'')]" h renders]
    by (simp add: dispatch_def locationError_def loadAtLocation_def)
  show ?thesis
    using a b c d e f g by blast
qed

lemma sample_approved: "approved h (JObj spaceA)" "approved h (JObj spaceB)"
  by (simp_all add: approved_def spaceA_def spaceB_def getp_def readProp_def js_or_def lower_submitted)

lemma first_load:
  "dispatch sampleHost (LoadAtLocation sampleService (Fin 28) (Fin 77)) [] initialState
     = initialState\<lparr> parkingSpaces := [withPrice sampleHost (JObj spaceA), withPrice sampleHost (JObj spaceB)],
                     spacesRef := 1,
                     filteredSpaces := [withPrice sampleHost (JObj spaceA), withPrice sampleHost (JObj spaceB)],
                     currentLocation := Some (Fin 28, Fin 77), loading := False,
                     requests := [GetAllSpaces None None (Some True)] \<rparr>"
  by (simp add: dispatch_def runEffects_def syncFilteredSpaces_def loadAtLocation_def
        loadDefaultParkingMarkers_def Let_def sampleService_def initialState_def windowActive_def
        strTruthy_def logRequest_def setParkingSpaces_def pricedOfApproved_def availableOnly_def
        sample_approved)

text \<open>
  The claim as stated fails: after a first load that shows the two sample spaces, pressing
  the current-location button while the service is down empties the full and the filtered
  collection.
\<close>

theorem fetch_failure_effects_counterexample:
  "parkingSpaces (run sampleHost [(LoadAtLocation sampleService (Fin 28) (Fin 77), [])] initialState)
     = [withPrice sampleHost (JObj spaceA), withPrice sampleHost (JObj spaceB)]
   \<and> parkingSpaces (run sampleHost [(LoadAtLocation sampleService (Fin 28) (Fin 77), []),
                                     (GoToCurrentLocation failingService, [])] initialState) = []
   \<and> filteredSpaces (run sampleHost [(LoadAtLocation sampleService (Fin 28) (Fin 77), []),
                                      (GoToCurrentLocation failingService, [])] initialState) = []
   \<and> toasts (run sampleHost [(LoadAtLocation sampleService (Fin 28) (Fin 77), []),
                              (GoToCurrentLocation failingService, [])] initialState)
       = [(ToastError, ''Failed to load parking markers.'')]"
proof -
  let ?loaded = "dispatch sampleHost (LoadAtLocation sampleService (Fin 28) (Fin 77)) [] initialState"
  have l: "currentLocation ?loaded = Some (Fin 28, Fin 77)" "toasts ?loaded = []"
          "parkingSpaces ?loaded = [withPrice sampleHost (JObj spaceA), withPrice sampleHost (JObj spaceB)]"
    unfolding first_load by (simp_all add: initialState_def)
  have r: "respond failingService q = Throws" for q
    by (simp add: failingService_def)
  have f: "parkingSpaces (loadDefaultParkingMarkers sampleHost failingService (Fin 28) (Fin 77) ?loaded) = []
       \<and> spacesRef (loadDefaultParkingMarkers sampleHost failingService (Fin 28) (Fin 77) ?loaded)
           = Suc (spacesRef ?loaded)
       \<and> toasts (loadDefaultParkingMarkers sampleHost failingService (Fin 28) (Fin 77) ?loaded)
           = toasts ?loaded @ [(ToastError, ''Failed to load parking markers.'')]"
    using load_failure[of failingService ?loaded "Fin 28" "Fin 77" sampleHost] by (simp add: r)
  have g: "parkingSpaces (dispatch sampleHost (GoToCurrentLocation failingService) [] ?loaded) = []
       \<and> filteredSpaces (dispatch sampleHost (GoToCurrentLocation failingService) [] ?loaded) = []
       \<and> toasts (dispatch sampleHost (GoToCurrentLocation failingService) [] ?loaded)
           = [(ToastError, ''Failed to load parking markers.'')]"
    using f l(1,2)
    by (simp add: dispatch_def[of _ "GoToCurrentLocation failingService"] runEffects_def
          syncFilteredSpaces_def handleGoToCurrentLocation_def)
  show ?thesis using g l(3) by simp
qed

text \<open>
  On the screen showing both spaces, with a service whose listing is empty and whose
  proximity request fails: choosing a search result and applying the time filter keep the two
  spaces and show their error; the current-location, near-me and search-clear buttons empty
  the collections.
\<close>

theorem fetch_failure_effects_witness:
  "respond emptyListingService
      (GetNearbySpaces (Fin 28) (Fin 77) (startTime shownState) (endTime shownState) (Some True)) = Throws
   \<and> fst (timeSelectionChecked sampleHost 0 shownState)
   \<and> respond emptyListingService (timeFilterRequest shownState) = Throws
   \<and> hasGetAllSpaces emptyListingService
   \<and> respond emptyListingService (GetAllSpaces (startTime shownState) (endTime shownState) (Some True))
       = Returns (JArr [])
   \<and> currentLocation shownState = Some (Fin 28, Fin 77)
   \<and> parkingSpaces (dispatch sampleHost (LocationSelect emptyListingService (Fin 28) (Fin 77) ''Delhi, India'')
                       [] shownState) = [spaceA, spaceB]
   \<and> toasts (dispatch sampleHost (LocationSelect emptyListingService (Fin 28) (Fin 77) ''Delhi, India'')
                [] shownState)
       = [(ToastError, ''Failed to fetch parking spaces for the selected location.'')]
   \<and> filteredSpaces (dispatch sampleHost (ApplyTimeFilter emptyListingService 0) [] shownState)
       = [spaceA, spaceB]
   \<and> toasts (dispatch sampleHost (ApplyTimeFilter emptyListingService 0) [] shownState)
       = [(ToastError, ''Unable to apply time filter.'')]
   \<and> parkingSpaces (dispatch sampleHost (GoToCurrentLocation emptyListingService) [] shownState) = []
   \<and> filteredSpaces (dispatch sampleHost (SearchByCurrentLocation emptyListingService) [] shownState) = []
   \<and> toasts (dispatch sampleHost (SearchByCurrentLocation emptyListingService) [] shownState)
       = [(ToastSuccess, ''Showing parking spaces around you''),
          (ToastError, ''Failed to load parking markers.'')]
   \<and> parkingSpaces (dispatch sampleHost (ClearSearchBox emptyListingService) [] shownState) = []
   \<and> parkingSpaces (dispatch sampleHost (LocationError emptyListingService) [] shownState) = []"
proof -
  have n: "respond emptyListingService (GetNearbySpaces lat lng s e on) = Throws" for lat lng s e on
    by (simp add: emptyListingService_def)
  have g: "respond emptyListingService (GetAllSpaces s e on) = Returns (JArr [])" for s e on
    by (simp add: emptyListingService_def)
  have hg: "hasGetAllSpaces emptyListingService"
    by (simp add: emptyListingService_def)
  have l: "currentLocation shownState = Some (Fin 28, Fin 77)"
    by (simp add: shownState_def)
  have c: "fst (timeSelectionChecked sampleHost 0 shownState)"
    by (simp add: timeSelectionChecked_def shownState_def initialState_def)
  have q: "timeFilterRequest shownState
             = GetNearbySpaces (Fin 28) (Fin 77) (startTime shownState) (endTime shownState) (Some True)"
    by (simp add: timeFilterRequest_def l)
  have f: "parkingSpaces shownState = [spaceA, spaceB]" "filteredSpaces shownState = [spaceA, spaceB]"
          "toasts shownState = []"
    by (simp_all add: shownState_def initialState_def)
  have e: "rendersToasts sampleHost [] st = []" for st
    by (simp add: rendersToasts_def)
  note t = fetch_failure_effects[of emptyListingService "Fin 28" "Fin 77" shownState sampleHost
             "''Delhi, India''" "[]" 0]
  show ?thesis
    using t c l hg by (simp add: n g q f e)
qed

end
